theory Spec2Isabelle
  imports Main "HOL-Library.Multiset" "HOL-Library.AList" "HOL-Library.Extended_Nat"
begin

chapter \<open>Harmony work-item scheduling and execution: definitions\<close>

text \<open>
  A shallow embedding of the scheduling and execution core of Harmony: the pollers of
  \<^verbatim>\<open>work-item-polling.ts\<close> (\<^verbatim>\<open>getWorkFromDatabase\<close>, \<^verbatim>\<open>getWorkItemsFromDatabase\<close>,
  \<^verbatim>\<open>getWorkFromQueue\<close>), the service runner (\<^verbatim>\<open>LogStream\<close>, \<^verbatim>\<open>_getStacCatalogs\<close>,
  \<^verbatim>\<open>_getErrorMessage\<close>, \<^verbatim>\<open>uploadLogs\<close>, \<^verbatim>\<open>runServiceFromPull\<close>) and the batch lookup
  of \<^verbatim>\<open>models/batch.ts\<close>. A function keeps its name; a leading underscore is dropped.
  The collaborators whose code is not among the sources (the database queries, the
  queue, the object store, the runtime's JSON parser) are parameters of the functions
  that call them, and every call of one may throw. The in-memory versions of them
  serve to evaluate the functions on concrete inputs.
\<close>

section \<open>JavaScript values, exceptions and logging\<close>

text \<open>
  A thrown value carries its constructor's name and its \<^verbatim>\<open>message\<close>. Every operation of
  the program that can throw returns \<open>exn + 'a\<close>, with \<open>Inl\<close> the exception.
\<close>

datatype exn = SyntaxError string | TypeError string | Error string

fun exnName :: "exn \<Rightarrow> string" where
  "exnName (SyntaxError _) = ''SyntaxError''"
| "exnName (TypeError _) = ''TypeError''"
| "exnName (Error _) = ''Error''"

fun exnMessage :: "exn \<Rightarrow> string" where
  "exnMessage (SyntaxError m) = m"
| "exnMessage (TypeError m) = m"
| "exnMessage (Error m) = m"

text \<open>\<^verbatim>\<open>`${e}`\<close> for an exception: \<^verbatim>\<open>Error.prototype.toString\<close>.\<close>

definition exnToString :: "exn \<Rightarrow> string" where
  "exnToString e = (if exnMessage e = [] then exnName e else exnName e @ '': '' @ exnMessage e)"

text \<open>
  The values \<^verbatim>\<open>JSON.parse\<close> produces. An object is the list of its own properties in
  insertion order, read with \<open>map_of\<close>. A number is the double nearest to the integer
  that \<open>JNum\<close> holds; numbers with a fraction part are outside the model. Where a
  JavaScript expression may also be \<^verbatim>\<open>undefined\<close>, its model is a \<open>json option\<close> and
  \<open>None\<close> is \<^verbatim>\<open>undefined\<close>.
\<close>

datatype json =
    JNull
  | JBool bool
  | JNum int
  | JStr string
  | JArr "json list"
  | JObj "(string \<times> json) list"

text \<open>
  Reading a property \<open>k\<close> that no prototype defines (as \<^verbatim>\<open>error\<close>): \<^verbatim>\<open>null.k\<close> throws,
  an object gives its own property, every other value gives \<^verbatim>\<open>undefined\<close>.
\<close>

fun getProp :: "json \<Rightarrow> string \<Rightarrow> exn + json option" where
  "getProp JNull k =
     Inl (TypeError (''Cannot read properties of null (reading '' @ [CHR 0x27] @ k @ [CHR 0x27] @ '')''))"
| "getProp (JObj fs) k = Inr (map_of fs k)"
| "getProp _ k = Inr None"

text \<open>Decimal text of a natural number, all its digits.\<close>

definition digitChar :: "nat \<Rightarrow> char" where
  "digitChar d = ''0123456789'' ! d"

fun showNat :: "nat \<Rightarrow> string" where
  "showNat n = (if n < 10 then [digitChar n] else showNat (n div 10) @ [digitChar (n mod 10)])"

declare showNat.simps [simp del]

text \<open>
  The double nearest to a natural number, ties to the even mantissa: a number below
  \<open>2 ^ 53\<close> is kept, a larger one keeps its 53 leading bits, rounded, and \<open>\<infinity>\<close> is
  \<^verbatim>\<open>Infinity\<close>, which the rounding reaches from \<open>2 ^ 1024 - 2 ^ 970\<close> on.
\<close>

fun bitLength :: "nat \<Rightarrow> nat" where
  "bitLength n = (if n = 0 then 0 else Suc (bitLength (n div 2)))"

declare bitLength.simps [simp del]

definition toDouble :: "nat \<Rightarrow> enat" where
  "toDouble n =
     (if n < 2 ^ 53 then enat n
      else (let e = bitLength n - 53;
                q = n div 2 ^ e;
                r = n mod 2 ^ e;
                half = 2 ^ (e - 1);
                m = (if half < r \<or> (r = half \<and> odd q) then q + 1 else q)
            in if 2 ^ 1024 \<le> m * 2 ^ e then \<infinity> else enat (m * 2 ^ e)))"

text \<open>
  \<^verbatim>\<open>Number::toString\<close> on a double \<open>v\<close> that is a natural number. Its digits are those
  of the decimal with the fewest significant digits that rounds to \<open>v\<close>, the one
  nearest to \<open>v\<close> when there are two (the even one on a tie): for each number of
  digits the two decimals around \<open>v\<close> are candidates, the nearer one first. From 22
  digits on the text is in exponent form.
\<close>

definition shortestCandidates :: "nat \<Rightarrow> nat list" where
  "shortestCandidates v =
     concat (map (\<lambda>k. let p = 10 ^ (length (showNat v) - k);
                           lo = v div p * p;
                           hi = lo + p
                       in if v - lo < hi - v \<or> (v - lo = hi - v \<and> even (v div p))
                          then [lo, hi] else [hi, lo])
                 [1..<Suc (length (showNat v))])"

definition shortestDecimal :: "nat \<Rightarrow> nat" where
  "shortestDecimal v =
     (case find (\<lambda>c. toDouble c = enat v) (shortestCandidates v) of Some c \<Rightarrow> c | None \<Rightarrow> v)"

definition numberText :: "nat \<Rightarrow> string" where
  "numberText n =
     (case toDouble n of
        \<infinity> \<Rightarrow> ''Infinity''
      | enat v \<Rightarrow>
          (if v < 2 ^ 53 then showNat v
           else (let ds = showNat (shortestDecimal v);
                     sig = rev (dropWhile (\<lambda>c. c = CHR ''0'') (rev ds))
                 in if length ds \<le> 21 then ds
                    else hd sig # (if tl sig = [] then [] else ''.'' @ tl sig) @
                         ''e+'' @ showNat (length ds - 1))))"

text \<open>The text a template literal makes of a number (\<^verbatim>\<open>`${n}`\<close>).\<close>

definition showInt :: "int \<Rightarrow> string" where
  "showInt i = (if i < 0 then ''-'' @ numberText (nat (- i)) else numberText (nat i))"

fun joinComma :: "string list \<Rightarrow> string" where
  "joinComma [] = []"
| "joinComma [s] = s"
| "joinComma (s # rest) = s @ '','' @ joinComma rest"

text \<open>The string a template literal makes of a value (\<^verbatim>\<open>`${v}`\<close>).\<close>

fun jsToString :: "json \<Rightarrow> string" where
  "jsToString JNull = ''null''"
| "jsToString (JBool b) = (if b then ''true'' else ''false'')"
| "jsToString (JNum n) = showInt n"
| "jsToString (JStr s) = s"
| "jsToString (JArr xs) = joinComma (map (\<lambda>x. if x = JNull then [] else jsToString x) xs)"
| "jsToString (JObj fs) = ''[object Object]''"

text \<open>
  A winston logger is the list of the calls made on it: the level, the first argument
  and the metadata object of the call.
\<close>

datatype level = Debug | Info | Warn | Err

datatype logCall = LogCall level json "(string \<times> json) list"

definition logString :: "level \<Rightarrow> string \<Rightarrow> logCall" where
  "logString l m = LogCall l (JStr m) []"

section \<open>The object store (util/object-store)\<close>

text \<open>
  The operations of the S3 object store the executor calls, over a store state \<open>'s\<close>.
  Their implementation (\<^verbatim>\<open>S3ObjectStore\<close>) is not among the sources, so the functions
  below take them as a parameter and hold for every store. A document is kept as the
  JSON value it denotes: \<^verbatim>\<open>upload(JSON.stringify(v), url)\<close> is \<open>upload s v url\<close>.
\<close>

record 's objectStore =
  objectExists :: "'s \<Rightarrow> string \<Rightarrow> exn + bool"
  getObjectJson :: "'s \<Rightarrow> string \<Rightarrow> exn + json"
  listObjectKeys :: "'s \<Rightarrow> string \<Rightarrow> exn + string list"
  upload :: "'s \<Rightarrow> json \<Rightarrow> string \<Rightarrow> exn + 's"

text \<open>
  Modelled from the spec: an in-memory object store with the contract
  \<^verbatim>\<open>exists(url)\<close>, \<^verbatim>\<open>readJSON(url)\<close>, \<^verbatim>\<open>write(content, url)\<close> of the spec's
  collaborator interfaces (the store's own code is not among the sources). It is used to
  run the functions on concrete inputs only.
\<close>

definition memoryStore :: "(string \<times> json) list objectStore" where
  "memoryStore =
     \<lparr>objectExists = (\<lambda>s url. Inr (map_of s url \<noteq> None)),
      getObjectJson = (\<lambda>s url. case map_of s url of
                                  None \<Rightarrow> Inl (Error ''NoSuchKey'')
                                | Some doc \<Rightarrow> Inr doc),
      listObjectKeys = (\<lambda>s dir. Inr (filter (\<lambda>k. take (length dir) k = dir) (map fst s))),
      upload = (\<lambda>s doc url. Inr (AList.update url doc s))\<rparr>"

text \<open>An empty directory whose listing is \<open>keys\<close>.\<close>

definition listingStore :: "string list \<Rightarrow> unit objectStore" where
  "listingStore keys =
     \<lparr>objectExists = (\<lambda>s url. Inr False),
      getObjectJson = (\<lambda>s url. Inl (Error ''NoSuchKey'')),
      listObjectKeys = (\<lambda>s dir. Inr keys),
      upload = (\<lambda>s doc url. Inr s)\<rparr>"

section \<open>Work items (models/work-item-interface)\<close>

text \<open>
  Modelled from the spec: the fields of \<^verbatim>\<open>WorkItemRecord\<close> and the values of
  \<^verbatim>\<open>WorkItemStatus\<close> that the functions below read (work-item-interface.ts is not among
  the sources). The fields \<^verbatim>\<open>id\<close>, \<^verbatim>\<open>jobID\<close> and \<^verbatim>\<open>serviceID\<close> are written
  \<open>itemID\<close>, \<open>itemJobID\<close> and \<open>itemServiceID\<close>.
\<close>

record WorkItemRecord =
  itemID :: nat
  itemJobID :: string
  itemServiceID :: string
  retryCount :: nat

datatype WorkItemStatus = READY | RUNNING | SUCCESSFUL | FAILED | CANCELED

definition mkItem :: "nat \<Rightarrow> string \<Rightarrow> WorkItemRecord" where
  "mkItem i j = \<lparr>itemID = i, itemJobID = j, itemServiceID = ''svc'', retryCount = 0\<rparr>"

section \<open>The service runner: error messages\<close>

text \<open>The parts of a Kubernetes \<^verbatim>\<open>V1Status\<close> that the runner reads; an absent part is \<open>None\<close>.\<close>

record V1StatusCause =
  reason :: "string option"
  message :: "string option"

record V1StatusDetails =
  causes :: "V1StatusCause list option"

record V1Status =
  status :: "string option"
  details :: "V1StatusDetails option"

definition OOM_EXIT_CODE :: string where
  "OOM_EXIT_CODE = ''137''"

text \<open>\<^verbatim>\<open>status.details?.causes?.find(i => i.reason === 'ExitCode')\<close>\<close>

definition exitCodeCause :: "V1Status \<Rightarrow> V1StatusCause option" where
  "exitCodeCause st =
     (case details st of
        None \<Rightarrow> None
      | Some d \<Rightarrow> (case causes d of
                   None \<Rightarrow> None
                 | Some cs \<Rightarrow> find (\<lambda>i. reason i = Some ''ExitCode'') cs))"

text \<open>\<^verbatim>\<open>exitCode?.message === OOM_EXIT_CODE\<close>\<close>

definition isOutOfMemory :: "V1Status \<Rightarrow> bool" where
  "isOutOfMemory st =
     (case exitCodeCause st of None \<Rightarrow> False | Some c \<Rightarrow> message c = Some OOM_EXIT_CODE)"

text \<open>\<^verbatim>\<open>_getErrorMessageOfStatus(status, msg)\<close>; a caller that omits \<^verbatim>\<open>msg\<close> passes its default, \<open>''Unknown error''\<close>.\<close>

definition getErrorMessageOfStatus :: "V1Status \<Rightarrow> string \<Rightarrow> string" where
  "getErrorMessageOfStatus st msg =
     (let errorMsg = (if isOutOfMemory st
                      then Some ''Service failed due to running out of memory'' else None)
      in (case errorMsg of Some m \<Rightarrow> m | None \<Rightarrow> msg))"

text \<open>The \<^verbatim>\<open>catch\<close> block of \<^verbatim>\<open>_getErrorMessage\<close>.\<close>

definition getErrorMessageCatch ::
  "V1Status \<Rightarrow> string \<Rightarrow> logCall list \<Rightarrow> exn \<Rightarrow> json option \<times> logCall list" where
  "getErrorMessageCatch st catalogDir workItemLogger e =
     (Some (JStr (getErrorMessageOfStatus st ''Service terminated without error message'')),
      workItemLogger @
        [logString Err (''Caught exception: '' @ exnToString e),
         logString Err (''Unable to parse out error from catalog location: '' @ catalogDir)])"

text \<open>
  \<^verbatim>\<open>_getErrorMessage(status, catalogDir, workItemLogger)\<close>. It returns the message and
  the logger after its calls. \<open>resolveUrl\<close> is \<^verbatim>\<open>resolve\<close> of util/url (not among the
  sources), a parameter.
\<close>

definition getErrorMessage ::
  "'s objectStore \<Rightarrow> 's \<Rightarrow> (string \<Rightarrow> string \<Rightarrow> exn + string) \<Rightarrow> V1Status \<Rightarrow> string \<Rightarrow>
     logCall list \<Rightarrow> json option \<times> logCall list" where
  "getErrorMessage s3 store resolveUrl st catalogDir workItemLogger =
     (case resolveUrl catalogDir ''error.json'' of
        Inl e \<Rightarrow> getErrorMessageCatch st catalogDir workItemLogger e
      | Inr errorFile \<Rightarrow>
          (case objectExists s3 store errorFile of
             Inl e \<Rightarrow> getErrorMessageCatch st catalogDir workItemLogger e
           | Inr True \<Rightarrow>
               (case getObjectJson s3 store errorFile of
                  Inl e \<Rightarrow> getErrorMessageCatch st catalogDir workItemLogger e
                | Inr logEntry \<Rightarrow>
                    (case getProp logEntry ''error'' of
                       Inl e \<Rightarrow> getErrorMessageCatch st catalogDir workItemLogger e
                     | Inr v \<Rightarrow> (v, workItemLogger)))
           | Inr False \<Rightarrow>
               (Some (JStr (getErrorMessageOfStatus st ''Unknown error'')), workItemLogger)))"

text \<open>A failed status whose one cause is the container's exit code, and a directory resolver.\<close>

definition exitStatus :: "string \<Rightarrow> V1Status" where
  "exitStatus code =
     \<lparr>status = Some ''Failure'',
      details = Some \<lparr>causes = Some [\<lparr>reason = Some ''ExitCode'', message = Some code\<rparr>]\<rparr>\<rparr>"

definition joinUrl :: "string \<Rightarrow> string \<Rightarrow> exn + string" where
  "joinUrl dir name = Inr (dir @ name)"

section \<open>The service runner: uploading logs\<close>

text \<open>The first line of \<^verbatim>\<open>uploadLogs\<close>: the marker text of this execution of the item.\<close>

definition retryMessage :: "WorkItemRecord \<Rightarrow> string" where
  "retryMessage workItem =
     ''Start of service execution (retryCount='' @ showNat (retryCount workItem) @
     '', id='' @ showNat (itemID workItem) @ '')''"

text \<open>\<^verbatim>\<open>typeof v === 'string'\<close>\<close>

fun isString :: "json \<Rightarrow> bool" where
  "isString (JStr _) = True"
| "isString _ = False"

text \<open>
  The array spread \<^verbatim>\<open>[...v]\<close>: the elements of an array, the characters of a string,
  and a \<^verbatim>\<open>TypeError\<close> for a value that is not iterable.
\<close>

fun spread :: "json \<Rightarrow> exn + json list" where
  "spread (JArr xs) = Inr xs"
| "spread (JStr s) = Inr (map (\<lambda>c. JStr [c]) s)"
| "spread _ = Inl (TypeError ''oldFileContent is not iterable'')"

text \<open>The entry that \<^verbatim>\<open>uploadLogs\<close> puts in front of the new logs.\<close>

definition retryMarker :: "WorkItemRecord \<Rightarrow> json list \<Rightarrow> json" where
  "retryMarker workItem logs =
     (if logs \<noteq> [] \<and> isString (hd logs)
      then JStr (retryMessage workItem)
      else JObj [(''message'', JStr (retryMessage workItem))])"

text \<open>
  \<^verbatim>\<open>uploadLogs(workItem, logs)\<close>, on the store state. \<open>getItemLogsLocation\<close> (of
  work-item-interface, not among the sources) is a parameter.
\<close>

definition uploadLogs ::
  "'s objectStore \<Rightarrow> (WorkItemRecord \<Rightarrow> string) \<Rightarrow> WorkItemRecord \<Rightarrow> json list \<Rightarrow> 's \<Rightarrow> exn + 's" where
  "uploadLogs s3 getItemLogsLocation workItem logs store =
     (let newFileContent = retryMarker workItem logs # logs;
          logsLocation = getItemLogsLocation workItem
      in case objectExists s3 store logsLocation of
           Inl e \<Rightarrow> Inl e
         | Inr True \<Rightarrow>
             (case getObjectJson s3 store logsLocation of
                Inl e \<Rightarrow> Inl e
              | Inr oldFileContent \<Rightarrow>
                  (case spread oldFileContent of
                     Inl e \<Rightarrow> Inl e
                   | Inr old \<Rightarrow> upload s3 store (JArr (old @ newFileContent)) logsLocation))
         | Inr False \<Rightarrow> upload s3 store (JArr newFileContent) logsLocation)"

definition logsLocationOf :: "WorkItemRecord \<Rightarrow> string" where
  "logsLocationOf workItem = ''s3://artifacts/logs/'' @ showNat (itemID workItem) @ ''.json''"

section \<open>The service runner: the worker's log stream\<close>

text \<open>
  The two sinks of a \<^verbatim>\<open>LogStream\<close>: the calls it makes on \<^verbatim>\<open>streamLogger\<close>, and
  \<^verbatim>\<open>logStrArr\<close>, the array that is uploaded afterwards.
\<close>

record LogStream =
  streamLogger :: "logCall list"
  logStrArr :: "json list"

definition emptyLogStream :: LogStream where
  "emptyLogStream = \<lparr>streamLogger = [], logStrArr = []\<rparr>"

definition toUpperCase :: "char \<Rightarrow> char" where
  "toUpperCase c =
     (case map_of (zip ''abcdefghijklmnopqrstuvwxyz'' ''ABCDEFGHIJKLMNOPQRSTUVWXYZ'') c of
        Some u \<Rightarrow> u
      | None \<Rightarrow> c)"

text \<open>\<^verbatim>\<open>`worker${propertyName[0].toUpperCase() + propertyName.substring(1)}`\<close>\<close>

definition workerPropName :: "string \<Rightarrow> string" where
  "workerPropName propertyName = ''worker'' @ toUpperCase (hd propertyName) # tl propertyName"

text \<open>
  \<^verbatim>\<open>propertyName in logObj\<close>, for a name that no prototype defines: a \<^verbatim>\<open>TypeError\<close>
  unless the right operand is an object.
\<close>

definition hasProp :: "json \<Rightarrow> string \<Rightarrow> exn + bool" where
  "hasProp v k =
     (case v of
        JObj fs \<Rightarrow> Inr (map_of fs k \<noteq> None)
      | JArr xs \<Rightarrow> Inr False
      | _ \<Rightarrow> Inl (TypeError (''Cannot use the in operator to search for '' @ k)))"

text \<open>
  \<^verbatim>\<open>logObj[workerName] = logObj[propertyName]; delete logObj[propertyName]\<close> on the
  properties of an object that has \<open>propertyName\<close>.
\<close>

definition renameProp :: "string \<Rightarrow> (string \<times> json) list \<Rightarrow> (string \<times> json) list" where
  "renameProp propertyName fs =
     (case map_of fs propertyName of
        None \<Rightarrow> fs
      | Some v \<Rightarrow> AList.delete propertyName (AList.update (workerPropName propertyName) v fs))"

text \<open>The loop \<^verbatim>\<open>for (const propertyName of [...])\<close> of \<^verbatim>\<open>_handleLogString\<close>.\<close>

fun renameProps :: "string list \<Rightarrow> json \<Rightarrow> exn + json" where
  "renameProps [] logObj = Inr logObj"
| "renameProps (propertyName # rest) logObj =
     (case hasProp logObj propertyName of
        Inl e \<Rightarrow> Inl e
      | Inr False \<Rightarrow> renameProps rest logObj
      | Inr True \<Rightarrow>
          (case logObj of
             JObj fs \<Rightarrow> renameProps rest (JObj (renameProp propertyName fs))
           | _ \<Rightarrow> renameProps rest logObj))"

text \<open>The own enumerable properties that an object spread \<^verbatim>\<open>{...v}\<close> copies.\<close>

fun spreadProps :: "json \<Rightarrow> (string \<times> json) list" where
  "spreadProps (JObj fs) = fs"
| "spreadProps (JArr xs) = zip (map showNat [0..<length xs]) xs"
| "spreadProps (JStr s) = zip (map showNat [0..<length s]) (map (\<lambda>c. JStr [c]) s)"
| "spreadProps _ = []"

text \<open>
  \<^verbatim>\<open>LogStream._handleLogString(logStr)\<close>. \<open>JSON_parse\<close> is the runtime's parser, a
  parameter; \<open>None\<close> is its \<^verbatim>\<open>SyntaxError\<close>. The parsed value is pushed first and then
  renamed in place, so the array holds the renamed object; when the renaming throws
  (a \<^verbatim>\<open>TypeError\<close>, which the \<^verbatim>\<open>catch\<close> block ignores) the array keeps the value as
  pushed and nothing is logged.
\<close>

definition handleLogString :: "(string \<Rightarrow> json option) \<Rightarrow> string \<Rightarrow> LogStream \<Rightarrow> LogStream" where
  "handleLogString JSON_parse logStr this =
     (case JSON_parse logStr of
        None \<Rightarrow>
          this\<lparr>logStrArr := logStrArr this @ [JStr logStr],
               streamLogger := streamLogger this @
                 [LogCall Debug (JStr logStr) [(''worker'', JBool True)]]\<rparr>
      | Some logObj \<Rightarrow>
          (case renameProps [''timestamp'', ''level''] logObj of
             Inl e \<Rightarrow> this\<lparr>logStrArr := logStrArr this @ [logObj]\<rparr>
           | Inr renamed \<Rightarrow>
               this\<lparr>logStrArr := logStrArr this @ [renamed],
                    streamLogger := streamLogger this @
                      [LogCall Debug
                         (JObj (AList.update ''worker'' (JBool True) (spreadProps renamed))) []]\<rparr>))"

text \<open>
  A call on the logger is tagged when the logged object or the call's metadata has
  \<^verbatim>\<open>worker: true\<close>; an entry of \<^verbatim>\<open>logStrArr\<close> is tagged when it is an object with
  \<^verbatim>\<open>worker: true\<close>.
\<close>

fun workerTagged :: "logCall \<Rightarrow> bool" where
  "workerTagged (LogCall l (JObj fs) meta) =
     (map_of fs ''worker'' = Some (JBool True) \<or> map_of meta ''worker'' = Some (JBool True))"
| "workerTagged (LogCall l v meta) = (map_of meta ''worker'' = Some (JBool True))"

fun entryTagged :: "json \<Rightarrow> bool" where
  "entryTagged (JObj fs) = (map_of fs ''worker'' = Some (JBool True))"
| "entryTagged _ = False"

text \<open>A parser that knows one text: \<open>parseOnly t v\<close> parses \<open>t\<close> to \<open>v\<close> and rejects the rest.\<close>

definition parseOnly :: "string \<Rightarrow> json \<Rightarrow> string \<Rightarrow> json option" where
  "parseOnly t v s = (if s = t then Some v else None)"

section \<open>The service runner: output catalogs\<close>

definition isDigit :: "char \<Rightarrow> bool" where
  "isDigit c = (c \<in> set ''0123456789'')"

definition digitValue :: "char \<Rightarrow> nat" where
  "digitValue c = (case map_of (zip ''0123456789'' [0, 1, 2, 3, 4, 5, 6, 7, 8, 9]) c of
                     Some d \<Rightarrow> d
                   | None \<Rightarrow> 0)"

text \<open>
  \<^verbatim>\<open>Number(ds)\<close> on a string of decimal digits: the double nearest to the number they
  write.
\<close>

definition Number :: "string \<Rightarrow> enat" where
  "Number ds = toDouble (foldl (\<lambda>n c. 10 * n + digitValue c) 0 ds)"

definition endsWith :: "string \<Rightarrow> string \<Rightarrow> bool" where
  "endsWith s suf = (take (length suf) (rev s) = rev suf)"

definition stripSuffix :: "string \<Rightarrow> string \<Rightarrow> string option" where
  "stripSuffix suf s = (if endsWith s suf then Some (take (length s - length suf) s) else None)"

text \<open>The characters that a regular expression's \<^verbatim>\<open>.\<close> does not match.\<close>

definition isLineTerminator :: "char \<Rightarrow> bool" where
  "isLineTerminator c = (c = CHR 0x0A \<or> c = CHR 0x0D)"

text \<open>
  \<^verbatim>\<open>fileKey.match(/catalog\d*.json$/)\<close>: the key ends with \<^verbatim>\<open>catalog\<close>, any number of
  digits, one character (the dot is not escaped) and \<^verbatim>\<open>json\<close>.
\<close>

definition matchesCatalogKey :: "string \<Rightarrow> bool" where
  "matchesCatalogKey fileKey =
     (case stripSuffix ''json'' fileKey of
        None \<Rightarrow> False
      | Some r \<Rightarrow>
          r \<noteq> [] \<and> \<not> isLineTerminator (last r) \<and>
          endsWith (rev (dropWhile isDigit (rev (butlast r)))) ''catalog'')"

text \<open>
  \<^verbatim>\<open>a.match(/.*catalog(\d+)\.json$/)\<close>: \<open>None\<close> is the \<^verbatim>\<open>null\<close> of a failed match,
  \<open>Some ds\<close> a match whose group is \<open>ds\<close>.
\<close>

definition fileNumMatch :: "string \<Rightarrow> string option" where
  "fileNumMatch url =
     (case stripSuffix ''.json'' url of
        None \<Rightarrow> None
      | Some r \<Rightarrow>
          (let ds = rev (takeWhile isDigit (rev r));
               pre = rev (dropWhile isDigit (rev r))
           in if ds \<noteq> [] \<and> endsWith pre ''catalog'' then Some ds else None))"

text \<open>
  One side of the comparator: \<^verbatim>\<open>aMatches.length > 1 ? Number(aMatches[1]) : 0\<close>, where
  \<^verbatim>\<open>aMatches.length\<close> throws on \<^verbatim>\<open>null\<close> and is 2 on a match.
\<close>

definition catalogNum :: "string \<Rightarrow> exn + enat" where
  "catalogNum a =
     (case fileNumMatch a of
        None \<Rightarrow> Inl (TypeError ''Cannot read properties of null (reading 'length')'')
      | Some ds \<Rightarrow> Inr (Number ds))"

text \<open>
  \<^verbatim>\<open>urls.sort((a, b) => aNum - bNum)\<close>. An array of fewer than two elements is returned
  without a call of the comparator; otherwise every element is compared at least once,
  a comparison that throws ends the sort, and a sort that completes is the stable sort
  by the number (the difference of \<^verbatim>\<open>Infinity\<close> and itself is \<^verbatim>\<open>NaN\<close>, which the sort
  takes as equal).
\<close>

definition sortByCatalogNum :: "string list \<Rightarrow> exn + string list" where
  "sortByCatalogNum urls =
     (if length urls \<le> 1 then Inr urls
      else (case find (\<lambda>u. isl (catalogNum u)) urls of
              Some u \<Rightarrow> Inl (projl (catalogNum u))
            | None \<Rightarrow> Inr (sort_key (\<lambda>u. projr (catalogNum u)) urls)))"

text \<open>\<^verbatim>\<open>_getStacCatalogs(dir)\<close>; \<open>artifactBucket\<close> is \<^verbatim>\<open>env.artifactBucket\<close>.\<close>

definition getStacCatalogs :: "'s objectStore \<Rightarrow> string \<Rightarrow> string \<Rightarrow> 's \<Rightarrow> exn + string list" where
  "getStacCatalogs s3 artifactBucket dir store =
     (let batchCatalogsJsonUrl = dir @ ''batch-catalogs.json'' in
      case objectExists s3 store batchCatalogsJsonUrl of
        Inl e \<Rightarrow> Inl e
      | Inr True \<Rightarrow>
          (case getObjectJson s3 store batchCatalogsJsonUrl of
             Inl e \<Rightarrow> Inl e
           | Inr (JArr batchCatalogs) \<Rightarrow>
               Inr (map (\<lambda>filename. dir @ jsToString filename) batchCatalogs)
           | Inr _ \<Rightarrow> Inl (TypeError ''batchCatalogs.map is not a function''))
      | Inr False \<Rightarrow>
          (case listObjectKeys s3 store dir of
             Inl e \<Rightarrow> Inl e
           | Inr keys \<Rightarrow>
               sortByCatalogNum
                 (map (\<lambda>fileKey. ''s3://'' @ artifactBucket @ ''/'' @ fileKey)
                    (filter matchesCatalogKey keys))))"

section \<open>The service runner: running the worker\<close>

text \<open>The fields of \<^verbatim>\<open>ServiceResponse\<close> that \<^verbatim>\<open>runServiceFromPull\<close> sets; an absent field is \<open>None\<close>.\<close>

record ServiceResponse =
  batchCatalogs :: "string list option"
  error :: "string option"

text \<open>
  What \<^verbatim>\<open>runServiceFromPull\<close> reads from its environment: the object store,
  \<^verbatim>\<open>sanitizeImage(env.harmonyService)\<close>, \<^verbatim>\<open>env.myPodName\<close>, \<^verbatim>\<open>workerTimeout\<close> in
  milliseconds and the text that JavaScript prints for \<^verbatim>\<open>workerTimeout / 1000.0\<close>,
  \<^verbatim>\<open>env.artifactBucket\<close>, \<^verbatim>\<open>resolve\<close> of util/url, \<^verbatim>\<open>getItemLogsLocation\<close> and
  \<^verbatim>\<open>getStacLocation\<close>, \<^verbatim>\<open>JSON.parse\<close> and the text of
  \<^verbatim>\<open>JSON.stringify(status, null, 2)\<close>.
\<close>

record 's runnerEnv =
  cfgStore :: "'s objectStore"
  cfgServiceName :: string
  cfgPodName :: string
  cfgWorkerTimeout :: nat
  cfgSecondsText :: "nat \<Rightarrow> string"
  cfgArtifactBucket :: string
  cfgResolveUrl :: "string \<Rightarrow> string \<Rightarrow> exn + string"
  cfgLogsLocation :: "WorkItemRecord \<Rightarrow> string"
  cfgStacLocation :: "WorkItemRecord \<Rightarrow> string"
  cfgParse :: "string \<Rightarrow> json option"
  cfgStatusText :: "V1Status \<Rightarrow> string"

text \<open>
  Where the status callback that \<^verbatim>\<open>exec.exec\<close> is given stands: not called yet,
  suspended at one of its three \<^verbatim>\<open>await\<close>s (with the status, and with the logs that
  \<^verbatim>\<open>uploadLogs\<close> copied when it was called), or returned.
\<close>

datatype callbackPhase =
    NotCalled
  | AwaitUploadLogs V1Status "json list"
  | AwaitStacCatalogs
  | AwaitErrorMessage V1Status
  | Returned

text \<open>
  The state of one invocation: the value the promise of \<^verbatim>\<open>runServiceFromPull\<close> has
  settled to (\<open>None\<close> while it is pending), whether the timer of \<^verbatim>\<open>setTimeout\<close> is
  still to fire (it has neither fired nor been cleared), the phase of the status
  callback, the object store, and \<^verbatim>\<open>stdOut\<close>, whose logger is \<^verbatim>\<open>workItemLogger\<close>.
\<close>

record 's runner =
  settled :: "ServiceResponse option"
  timeoutArmed :: bool
  statusCallback :: callbackPhase
  objects :: 's
  stdOut :: LogStream

text \<open>\<^verbatim>\<open>resolve(r)\<close>: the first call settles the promise, a later call does nothing.\<close>

definition resolve :: "ServiceResponse \<Rightarrow> 's runner \<Rightarrow> 's runner" where
  "resolve r s = (if settled s = None then s\<lparr>settled := Some r\<rparr> else s)"

definition clearTimeout :: "'s runner \<Rightarrow> 's runner" where
  "clearTimeout s = s\<lparr>timeoutArmed := False\<rparr>"

definition workItemLog :: "level \<Rightarrow> string \<Rightarrow> 's runner \<Rightarrow> 's runner" where
  "workItemLog l m s =
     s\<lparr>stdOut := (stdOut s)\<lparr>streamLogger := streamLogger (stdOut s) @ [logString l m]\<rparr>\<rparr>"

text \<open>\<^verbatim>\<open>{ error: `Worker timed out after ${workerTimeout / 1000.0} seconds` }\<close>\<close>

definition timeoutError :: "'s runnerEnv \<Rightarrow> ServiceResponse" where
  "timeoutError cfg =
     \<lparr>batchCatalogs = None,
      error = Some (''Worker timed out after '' @ cfgSecondsText cfg (cfgWorkerTimeout cfg) @ '' seconds'')\<rparr>"

text \<open>\<^verbatim>\<open>{ error }\<close> with \<^verbatim>\<open>error = `The ${serviceName} service failed.`\<close>\<close>

definition serviceFailed :: "'s runnerEnv \<Rightarrow> ServiceResponse" where
  "serviceFailed cfg =
     \<lparr>batchCatalogs = None, error = Some (''The '' @ cfgServiceName cfg @ '' service failed.'')\<rparr>"

text \<open>\<^verbatim>\<open>`${logErr}`\<close> for a value that may be \<^verbatim>\<open>undefined\<close>.\<close>

definition templateText :: "json option \<Rightarrow> string" where
  "templateText v = (case v of None \<Rightarrow> ''undefined'' | Some x \<Rightarrow> jsToString x)"

text \<open>
  What can happen after \<^verbatim>\<open>runServiceFromPull\<close> has started the worker, each run to
  completion by the event loop: the timer fires; the worker writes a chunk to
  \<^verbatim>\<open>stdOut\<close>; \<^verbatim>\<open>exec.exec\<close> calls the status callback; the awaited call at which the
  callback is suspended completes and the callback resumes; the promise of
  \<^verbatim>\<open>exec.exec\<close> is rejected; \<^verbatim>\<open>exec.exec\<close> throws inside the promise's executor, which
  rejects the promise and takes \<^verbatim>\<open>runServiceFromPull\<close> to its own \<^verbatim>\<open>catch\<close> block.
\<close>

datatype event =
    TimerFires
  | WorkerOutput string
  | StatusCallback V1Status
  | Resume
  | ExecRejected exn
  | ExecThrows exn

text \<open>The status callback from the \<^verbatim>\<open>await\<close> it is suspended at to the next one, or to its end.\<close>

definition resume :: "'s runnerEnv \<Rightarrow> WorkItemRecord \<Rightarrow> 's runner \<Rightarrow> 's runner" where
  "resume cfg workItem s =
     (case statusCallback s of
        AwaitUploadLogs st lgs \<Rightarrow>
          (case uploadLogs (cfgStore cfg) (cfgLogsLocation cfg) workItem lgs (objects s) of
             Inl e \<Rightarrow>
               resolve (serviceFailed cfg)
                 (workItemLog Err (exnToString e)
                   (workItemLog Err ''Unable to upload logs. Caught exception:''
                     (s\<lparr>statusCallback := Returned\<rparr>)))
           | Inr uploaded \<Rightarrow>
               (if status st = Some ''Success''
                then workItemLog Debug ''Getting STAC catalogs''
                       (clearTimeout (s\<lparr>objects := uploaded, statusCallback := AwaitStacCatalogs\<rparr>))
                else clearTimeout (s\<lparr>objects := uploaded, statusCallback := AwaitErrorMessage st\<rparr>)))
      | AwaitStacCatalogs \<Rightarrow>
          (case getStacCatalogs (cfgStore cfg) (cfgArtifactBucket cfg) (cfgStacLocation cfg workItem)
                  (objects s) of
             Inl e \<Rightarrow>
               resolve (serviceFailed cfg)
                 (workItemLog Err (exnToString e)
                   (workItemLog Err ''Unable to upload logs. Caught exception:''
                     (s\<lparr>statusCallback := Returned\<rparr>)))
           | Inr catalogs \<Rightarrow>
               resolve \<lparr>batchCatalogs = Some catalogs, error = None\<rparr> (s\<lparr>statusCallback := Returned\<rparr>))
      | AwaitErrorMessage st \<Rightarrow>
          (case getErrorMessage (cfgStore cfg) (objects s) (cfgResolveUrl cfg) st
                  (cfgStacLocation cfg workItem) (streamLogger (stdOut s)) of
             (logErr, logged) \<Rightarrow>
               resolve \<lparr>batchCatalogs = None,
                        error = Some (cfgServiceName cfg @ '': '' @ templateText logErr)\<rparr>
                 (s\<lparr>stdOut := (stdOut s)\<lparr>streamLogger := logged\<rparr>, statusCallback := Returned\<rparr>))
      | _ \<Rightarrow> s)"

text \<open>
  One event. The timer's callback runs only if the timer has not been cleared; the
  status callback is taken once.
\<close>

definition step :: "'s runnerEnv \<Rightarrow> WorkItemRecord \<Rightarrow> 's runner \<Rightarrow> event \<Rightarrow> 's runner" where
  "step cfg workItem s ev =
     (case ev of
        TimerFires \<Rightarrow>
          (if timeoutArmed s then resolve (timeoutError cfg) (s\<lparr>timeoutArmed := False\<rparr>) else s)
      | WorkerOutput chunk \<Rightarrow> s\<lparr>stdOut := handleLogString (cfgParse cfg) chunk (stdOut s)\<rparr>
      | StatusCallback st \<Rightarrow>
          (if statusCallback s = NotCalled
           then (workItemLog Debug (''SIDECAR STATUS: '' @ cfgStatusText cfg st) s)
                  \<lparr>statusCallback := AwaitUploadLogs st (logStrArr (stdOut s))\<rparr>
           else s)
      | Resume \<Rightarrow> resume cfg workItem s
      | ExecRejected e \<Rightarrow>
          resolve (serviceFailed cfg)
            (workItemLog Err (exnToString e)
              (workItemLog Err ''Kubernetes client exec caught exception:'' (clearTimeout s)))
      | ExecThrows e \<Rightarrow>
          resolve \<lparr>batchCatalogs = None, error = Some ''The service failed.''\<rparr>
            (workItemLog Err (exnToString e)
              (workItemLog Err ''runServiceFromPull caught exception:'' s)))"

text \<open>
  The state in which the promise's executor leaves the invocation: the timer set, the
  worker started, nothing captured yet.
\<close>

definition started :: "'s runnerEnv \<Rightarrow> 's \<Rightarrow> logCall list \<Rightarrow> 's runner" where
  "started cfg store workItemLogger =
     \<lparr>settled = None, timeoutArmed = True, statusCallback = NotCalled, objects = store,
      stdOut = \<lparr>streamLogger = workItemLogger @
                  [logString Debug (''CALLING WORKER for pod '' @ cfgPodName cfg)],
                logStrArr = []\<rparr>\<rparr>"

text \<open>
  \<^verbatim>\<open>runServiceFromPull(workItem, workItemLogger)\<close> under a schedule of events: the value
  its promise has settled to after them.
\<close>

definition runEvents :: "'s runnerEnv \<Rightarrow> WorkItemRecord \<Rightarrow> event list \<Rightarrow> 's runner \<Rightarrow> 's runner" where
  "runEvents cfg workItem events s = foldl (step cfg workItem) s events"

definition runServiceFromPull ::
  "'s runnerEnv \<Rightarrow> WorkItemRecord \<Rightarrow> 's \<Rightarrow> logCall list \<Rightarrow> event list \<Rightarrow> ServiceResponse option" where
  "runServiceFromPull cfg workItem store workItemLogger events =
     settled (runEvents cfg workItem events (started cfg store workItemLogger))"





text \<open>
  The text JavaScript prints for \<^verbatim>\<open>ms / 1000.0\<close>, for a whole number of milliseconds of
  at most fifteen digits: the seconds, and behind a dot the thousandths without their
  trailing zeros.
\<close>

definition secondsText :: "nat \<Rightarrow> string" where
  "secondsText ms =
     (let thousandths = [digitChar (ms mod 1000 div 100), digitChar (ms mod 100 div 10),
                         digitChar (ms mod 10)]
      in if ms mod 1000 = 0 then showNat (ms div 1000)
         else showNat (ms div 1000) @ ''.'' @ rev (dropWhile (\<lambda>c. c = CHR ''0'') (rev thousandths)))"



section \<open>The work-item store and its transactions\<close>

text \<open>\<^verbatim>\<open>WorkItemData\<close> of work-item-polling.ts; an absent \<^verbatim>\<open>maxCmrGranules\<close> is \<open>None\<close>.\<close>

record WorkItemData =
  workItem :: WorkItemRecord
  maxCmrGranules :: "int option"

text \<open>
  The queries that work-item-polling.ts imports from models/work-item, models/user-work
  and ./util, over a database state \<open>'db\<close>. Their code is not among the sources, so
  the pollers below take them as a parameter and hold for every database; each query
  may throw. \<open>commitTransaction\<close> is the commit that \<^verbatim>\<open>db.transaction\<close> runs after its
  callback has returned, and \<open>QUERY_CMR_SERVICE_REGEX_test\<close> is
  \<^verbatim>\<open>QUERY_CMR_SERVICE_REGEX.test\<close>. The count that
  \<^verbatim>\<open>incrementRunningAndDecrementReadyCounts\<close> takes is \<open>None\<close> where the caller omits it.
\<close>

record 'db dbOps =
  getNextUsernameForWork :: "'db \<Rightarrow> string \<Rightarrow> exn + string option"
  getNextJobIdForUsernameAndService :: "'db \<Rightarrow> string \<Rightarrow> string \<Rightarrow> exn + string option"
  getNextJobIds :: "'db \<Rightarrow> string \<Rightarrow> nat \<Rightarrow> exn + string list"
  getNextWorkItem :: "'db \<Rightarrow> string \<Rightarrow> string \<Rightarrow> exn + WorkItemRecord option \<times> 'db"
  getNextWorkItems :: "'db \<Rightarrow> string \<Rightarrow> string \<Rightarrow> int \<Rightarrow> exn + WorkItemRecord list option \<times> 'db"
  incrementRunningAndDecrementReadyCounts :: "'db \<Rightarrow> string \<Rightarrow> string \<Rightarrow> int option \<Rightarrow> exn + 'db"
  recalculateCounts :: "'db \<Rightarrow> string \<Rightarrow> exn + 'db"
  calculateQueryCmrLimit :: "'db \<Rightarrow> WorkItemRecord \<Rightarrow> exn + int"
  getWorkItemStatus :: "'db \<Rightarrow> nat \<Rightarrow> exn + WorkItemStatus option"
  updateWorkItemStatuses :: "'db \<Rightarrow> nat list \<Rightarrow> WorkItemStatus \<Rightarrow> exn + 'db"
  commitTransaction :: "'db \<Rightarrow> exn + 'db"
  QUERY_CMR_SERVICE_REGEX_test :: "string \<Rightarrow> bool"

text \<open>
  What a poller acts on: the database and the request logger. A function's local
  variables that its callbacks assign extend this record.
\<close>

record 'db world =
  db :: 'db
  logs :: "logCall list"

text \<open>
  A statement sequence that may throw: the outcome and the state after it. The state is
  returned on a throw as well, since log calls and assignments made before it persist.
\<close>

type_synonym ('w, 'a) io = "'w \<Rightarrow> (exn + 'a) \<times> 'w"

definition ret :: "'a \<Rightarrow> ('w, 'a) io" where
  "ret x w = (Inr x, w)"

definition throw :: "exn \<Rightarrow> ('w, 'a) io" where
  "throw e w = (Inl e, w)"

definition bindIO :: "('w, 'a) io \<Rightarrow> ('a \<Rightarrow> ('w, 'b) io) \<Rightarrow> ('w, 'b) io" where
  "bindIO m f w = (case m w of (Inl e, w') \<Rightarrow> (Inl e, w') | (Inr x, w') \<Rightarrow> f x w')"

definition tryCatch :: "('w, 'a) io \<Rightarrow> (exn \<Rightarrow> ('w, 'a) io) \<Rightarrow> ('w, 'a) io" where
  "tryCatch m handler w = (case m w of (Inl e, w') \<Rightarrow> handler e w' | (Inr x, w') \<Rightarrow> (Inr x, w'))"

definition logMsg :: "level \<Rightarrow> string \<Rightarrow> (('db, 'z) world_scheme, unit) io" where
  "logMsg l m w = (Inr (), w\<lparr>logs := logs w @ [logString l m]\<rparr>)"

definition dbRead :: "('db \<Rightarrow> exn + 'a) \<Rightarrow> (('db, 'z) world_scheme, 'a) io" where
  "dbRead q w = (q (db w), w)"

definition dbRun :: "('db \<Rightarrow> exn + 'a \<times> 'db) \<Rightarrow> (('db, 'z) world_scheme, 'a) io" where
  "dbRun q w = (case q (db w) of Inl e \<Rightarrow> (Inl e, w) | Inr (x, d) \<Rightarrow> (Inr x, w\<lparr>db := d\<rparr>))"

definition dbWrite :: "('db \<Rightarrow> exn + 'db) \<Rightarrow> (('db, 'z) world_scheme, unit) io" where
  "dbWrite q w = (case q (db w) of Inl e \<Rightarrow> (Inl e, w) | Inr d \<Rightarrow> (Inr (), w\<lparr>db := d\<rparr>))"

text \<open>
  \<^verbatim>\<open>db.transaction(callback)\<close>: the callback runs on the database; when it throws, or
  when the commit after it throws, the database is as before the transaction and the
  exception is rethrown; everything else the callback did (log calls, assignments to
  the variables it captures) stays. A transaction that cannot begin behaves as one
  whose first query throws.
\<close>

definition transaction ::
  "'db dbOps \<Rightarrow> (('db, 'z) world_scheme, 'a) io \<Rightarrow> (('db, 'z) world_scheme, 'a) io" where
  "transaction ops callback w =
     (case callback w of
        (Inl e, w') \<Rightarrow> (Inl e, w'\<lparr>db := db w\<rparr>)
      | (Inr x, w') \<Rightarrow>
          (case commitTransaction ops (db w') of
             Inl e \<Rightarrow> (Inl e, w'\<lparr>db := db w\<rparr>)
           | Inr d \<Rightarrow> (Inr x, w'\<lparr>db := d\<rparr>)))"

section \<open>Polling the database for one work item\<close>

text \<open>The local variable \<^verbatim>\<open>result\<close> of \<^verbatim>\<open>getWorkFromDatabase\<close>.\<close>

record 'db pollScope = "'db world" +
  result :: "WorkItemData option"

definition setResult :: "WorkItemData \<Rightarrow> ('db pollScope, unit) io" where
  "setResult r w = (Inr (), w\<lparr>result := Some r\<rparr>)"

text \<open>
  The callback that \<^verbatim>\<open>getWorkFromDatabase\<close> passes to \<^verbatim>\<open>db.transaction\<close>. The tests
  \<^verbatim>\<open>if (username)\<close> and \<^verbatim>\<open>if (jobID)\<close> fail on \<^verbatim>\<open>undefined\<close> and on the empty string.
\<close>

definition getWorkFromDatabaseTx :: "'db dbOps \<Rightarrow> string \<Rightarrow> ('db pollScope, unit) io" where
  "getWorkFromDatabaseTx ops serviceID =
     bindIO (dbRead (\<lambda>tx. getNextUsernameForWork ops tx serviceID)) (\<lambda>username.
       case username of
         None \<Rightarrow> ret ()
       | Some u \<Rightarrow>
           if u = [] then ret () else
           bindIO (dbRead (\<lambda>tx. getNextJobIdForUsernameAndService ops tx serviceID u)) (\<lambda>jobID.
             case jobID of
               None \<Rightarrow> ret ()
             | Some j \<Rightarrow>
                 if j = [] then ret () else
                 bindIO (dbRun (\<lambda>tx. getNextWorkItem ops tx serviceID j)) (\<lambda>workItem.
                   case workItem of
                     Some wi \<Rightarrow>
                       bindIO (dbWrite (\<lambda>tx. incrementRunningAndDecrementReadyCounts ops tx j serviceID None)) (\<lambda>_.
                         if QUERY_CMR_SERVICE_REGEX_test ops (itemServiceID wi)
                         then
                           bindIO (dbRead (\<lambda>tx. calculateQueryCmrLimit ops tx wi)) (\<lambda>maxCmrGranules.
                           bindIO (logMsg Debug (''Found work item '' @ showNat (itemID wi) @ '' for service '' @
                                     serviceID @ '' with max CMR granules '' @ showInt maxCmrGranules)) (\<lambda>_.
                           setResult \<lparr>workItem = wi, maxCmrGranules = Some maxCmrGranules\<rparr>))
                         else setResult \<lparr>workItem = wi, maxCmrGranules = None\<rparr>)
                   | None \<Rightarrow>
                       bindIO (logMsg Warn (''user_work is out of sync for user '' @ u @ '' and job '' @ j @
                                 '', could not find ready work item'')) (\<lambda>_.
                       bindIO (logMsg Warn (''recalculating ready and running counts for job '' @ j)) (\<lambda>_.
                       dbWrite (\<lambda>tx. recalculateCounts ops tx j))))))"

text \<open>
  \<^verbatim>\<open>getWorkFromDatabase(serviceID, reqLogger)\<close>: \<^verbatim>\<open>result\<close> starts as \<^verbatim>\<open>null\<close>, the
  transaction runs inside \<^verbatim>\<open>try\<close>, the \<^verbatim>\<open>catch\<close> block logs, and \<^verbatim>\<open>result\<close> is
  returned whatever happened.
\<close>

definition getWorkFromDatabase ::
  "'db dbOps \<Rightarrow> string \<Rightarrow> 'db world \<Rightarrow> WorkItemData option \<times> 'db world" where
  "getWorkFromDatabase ops serviceID w =
     (case tryCatch (transaction ops (getWorkFromDatabaseTx ops serviceID))
             (\<lambda>err. logMsg Err (''Error getting work from database: '' @ exnMessage err))
             \<lparr>db = db w, logs = logs w, result = None\<rparr> of
        (_, scope) \<Rightarrow> (result scope, \<lparr>db = db scope, logs = logs scope\<rparr>))"

section \<open>Polling the database for a batch of work items\<close>

text \<open>
  \<^verbatim>\<open>shuffleArray\<close>: the loop runs \<open>i\<close> from the last index down to 1 and swaps the
  elements at \<open>i\<close> and \<open>j\<close>. \<^verbatim>\<open>Math.floor(Math.random() * (i + 1))\<close> is some \<open>j\<close> from 0
  to \<open>i\<close>: the draws are the parameter \<open>random\<close>, reduced into that range.
\<close>

fun shuffleLoop :: "(nat \<Rightarrow> nat) \<Rightarrow> nat \<Rightarrow> 'a list \<Rightarrow> 'a list" where
  "shuffleLoop random 0 array = array"
| "shuffleLoop random (Suc k) array =
     (let i = Suc k; j = random i mod (i + 1)
      in shuffleLoop random k (array[i := array ! j, j := array ! i]))"

definition shuffleArray :: "(nat \<Rightarrow> nat) \<Rightarrow> 'a list \<Rightarrow> 'a list" where
  "shuffleArray random array = shuffleLoop random (length array - 1) array"

text \<open>\<^verbatim>\<open>Math.ceil(a / b)\<close> on integers, for a positive \<open>b\<close>.\<close>

definition ceilDiv :: "int \<Rightarrow> int \<Rightarrow> int" where
  "ceilDiv a b = - ((- a) div b)"

text \<open>The local variables of \<^verbatim>\<open>getWorkItemsFromDatabase\<close> that \<^verbatim>\<open>processJob\<close> assigns.\<close>

record 'db batchScope = "'db world" +
  workItems :: "WorkItemData list"
  remainingNumOfJobs :: int
  remainingBatchSize :: int

definition pushWorkItem :: "WorkItemData \<Rightarrow> ('db batchScope, unit) io" where
  "pushWorkItem x w = (Inr (), w\<lparr>workItems := workItems w @ [x]\<rparr>)"

text \<open>The body of the loop \<^verbatim>\<open>for (const workItem of nextWorkItems)\<close>, and the loop.\<close>

definition foundWorkItem :: "'db dbOps \<Rightarrow> string \<Rightarrow> WorkItemRecord \<Rightarrow> ('db batchScope, unit) io" where
  "foundWorkItem ops serviceID wi =
     (if QUERY_CMR_SERVICE_REGEX_test ops (itemServiceID wi)
      then
        bindIO (dbRead (\<lambda>tx. calculateQueryCmrLimit ops tx wi)) (\<lambda>maxCmrGranules.
        bindIO (logMsg Debug (''Found work item '' @ showNat (itemID wi) @ '' for service '' @
                  serviceID @ '' with max CMR granules '' @ showInt maxCmrGranules)) (\<lambda>_.
        pushWorkItem \<lparr>workItem = wi, maxCmrGranules = Some maxCmrGranules\<rparr>))
      else pushWorkItem \<lparr>workItem = wi, maxCmrGranules = None\<rparr>)"

fun pushWorkItems :: "'db dbOps \<Rightarrow> string \<Rightarrow> WorkItemRecord list \<Rightarrow> ('db batchScope, unit) io" where
  "pushWorkItems ops serviceID [] = ret ()"
| "pushWorkItems ops serviceID (wi # rest) =
     bindIO (foundWorkItem ops serviceID wi) (\<lambda>_. pushWorkItems ops serviceID rest)"

text \<open>
  \<^verbatim>\<open>workSize = (remainingNumOfJobs > 0) ? Math.ceil(remainingBatchSize / remainingNumOfJobs) : 1\<close>
\<close>

definition workSizeOf :: "'db batchScope \<Rightarrow> int" where
  "workSizeOf w =
     (if remainingNumOfJobs w > 0 then ceilDiv (remainingBatchSize w) (remainingNumOfJobs w) else 1)"

text \<open>The items of a fetch: none when \<^verbatim>\<open>nextWorkItems\<close> is \<^verbatim>\<open>null\<close> or \<^verbatim>\<open>undefined\<close>.\<close>

definition fetchedItems :: "WorkItemRecord list option \<Rightarrow> WorkItemRecord list" where
  "fetchedItems nextWorkItems = (case nextWorkItems of Some xs \<Rightarrow> xs | None \<Rightarrow> [])"

text \<open>The last two statements of \<^verbatim>\<open>processJob\<close>.\<close>

definition readjustCounts :: "WorkItemRecord list option \<Rightarrow> ('db batchScope, unit) io" where
  "readjustCounts nextWorkItems w =
     (Inr (), w\<lparr>remainingNumOfJobs := remainingNumOfJobs w - 1,
                remainingBatchSize := remainingBatchSize w - int (length (fetchedItems nextWorkItems))\<rparr>)"

text \<open>\<^verbatim>\<open>processJob(tx, jobId)\<close>\<close>

definition processJob :: "'db dbOps \<Rightarrow> string \<Rightarrow> string \<Rightarrow> ('db batchScope, unit) io" where
  "processJob ops serviceID jobId w =
     (let workSize = workSizeOf w in
      bindIO (dbRun (\<lambda>tx. getNextWorkItems ops tx serviceID jobId workSize)) (\<lambda>nextWorkItems.
      bindIO
        (case nextWorkItems of
           Some (x # xs) \<Rightarrow>
             bindIO (pushWorkItems ops serviceID (x # xs)) (\<lambda>_.
             dbWrite (\<lambda>tx. incrementRunningAndDecrementReadyCounts ops tx jobId serviceID
                              (Some (int (length (x # xs))))))
         | _ \<Rightarrow>
             bindIO (logMsg Warn (''user_work is out of sync for job '' @ jobId @
                       '', could not find ready work item'')) (\<lambda>_.
             bindIO (logMsg Warn (''recalculating ready and running counts for job '' @ jobId)) (\<lambda>_.
             dbWrite (\<lambda>tx. recalculateCounts ops tx jobId))))
        (\<lambda>_. readjustCounts nextWorkItems)) w)"

text \<open>The loop \<^verbatim>\<open>for (const jobId of shuffledJobIds)\<close>: one transaction for each job.\<close>

fun forEachJob :: "'db dbOps \<Rightarrow> string \<Rightarrow> string list \<Rightarrow> ('db batchScope, unit) io" where
  "forEachJob ops serviceID [] = ret ()"
| "forEachJob ops serviceID (jobId # rest) =
     bindIO (transaction ops (processJob ops serviceID jobId)) (\<lambda>_. forEachJob ops serviceID rest)"

definition initCounts :: "nat \<Rightarrow> nat \<Rightarrow> ('db batchScope, unit) io" where
  "initCounts numJobs batchSize w =
     (Inr (), w\<lparr>remainingNumOfJobs := int numJobs, remainingBatchSize := int batchSize\<rparr>)"

text \<open>The \<^verbatim>\<open>try\<close> block of \<^verbatim>\<open>getWorkItemsFromDatabase\<close>; \<^verbatim>\<open>getNextJobIds\<close> reads outside any transaction.\<close>

definition getWorkItemsFromDatabaseTry ::
  "'db dbOps \<Rightarrow> (nat \<Rightarrow> nat) \<Rightarrow> string \<Rightarrow> nat \<Rightarrow> ('db batchScope, unit) io" where
  "getWorkItemsFromDatabaseTry ops random serviceID batchSize =
     bindIO (dbRead (\<lambda>d. getNextJobIds ops d serviceID batchSize)) (\<lambda>jobIds.
     bindIO (initCounts (length jobIds) batchSize) (\<lambda>_.
     forEachJob ops serviceID (shuffleArray random jobIds)))"

text \<open>\<^verbatim>\<open>getWorkItemsFromDatabase(serviceID, reqLogger, batchSize)\<close>, for a batch size that is a count.\<close>

definition getWorkItemsFromDatabase ::
  "'db dbOps \<Rightarrow> (nat \<Rightarrow> nat) \<Rightarrow> string \<Rightarrow> nat \<Rightarrow> 'db world \<Rightarrow> WorkItemData list \<times> 'db world" where
  "getWorkItemsFromDatabase ops random serviceID batchSize w =
     (case tryCatch (getWorkItemsFromDatabaseTry ops random serviceID batchSize)
             (\<lambda>err. logMsg Err (''Error getting works from database: '' @ exnMessage err))
             \<lparr>db = db w, logs = logs w, workItems = [], remainingNumOfJobs = 0, remainingBatchSize = 0\<rparr> of
        (_, scope) \<Rightarrow> (workItems scope, \<lparr>db = db scope, logs = logs scope\<rparr>))"

text \<open>
  The scope at the start of each iteration of the loop over the jobs, in order: the
  iterations that run before the loop ends or a transaction throws.
\<close>

fun iterations :: "'db dbOps \<Rightarrow> string \<Rightarrow> string list \<Rightarrow> 'db batchScope \<Rightarrow> 'db batchScope list" where
  "iterations ops serviceID [] w = []"
| "iterations ops serviceID (jobId # rest) w =
     w # (case transaction ops (processJob ops serviceID jobId) w of
            (Inr _, w') \<Rightarrow> iterations ops serviceID rest w'
          | (Inl _, _) \<Rightarrow> [])"

text \<open>
  The store's contract for \<^verbatim>\<open>getNextWorkItems\<close>, from the spec's
  \<^verbatim>\<open>nextReadyItem(serviceID, jobID, limit)\<close>: at most \<open>limit\<close> items are returned.
\<close>

definition fetchContract :: "'db dbOps \<Rightarrow> bool" where
  "fetchContract ops =
     (\<forall>tx serviceID jobId workSize xs tx'.
        0 \<le> workSize \<and> getNextWorkItems ops tx serviceID jobId workSize = Inr (Some xs, tx') \<longrightarrow>
        int (length xs) \<le> workSize)"

section \<open>Getting work from a service's queue\<close>

text \<open>A message of a queue: \<^verbatim>\<open>{body, receipt}\<close>.\<close>

record QueueMessage =
  body :: string
  receipt :: string

text \<open>
  The operations of a queue (util/queue, not among the sources), over a queue state
  \<open>'q\<close>: a parameter of the functions below, each operation may throw.
  \<^verbatim>\<open>getMessage(0)\<close> is \<open>getMessage q (Some 0)\<close>, \<^verbatim>\<open>getMessage()\<close> is
  \<open>getMessage q None\<close>.
\<close>

record 'q queueOps =
  getMessage :: "'q \<Rightarrow> int option \<Rightarrow> exn + QueueMessage option \<times> 'q"
  deleteMessage :: "'q \<Rightarrow> string \<Rightarrow> exn + 'q"
  sendMessage :: "'q \<Rightarrow> string \<Rightarrow> exn + 'q"

text \<open>What the queue consumer acts on: the state of the queue at each URL and of the scheduler's queue.\<close>

record ('db, 'q) queueWorld = "'db world" +
  queues :: "string \<Rightarrow> 'q"
  workSchedulerQueue :: 'q

text \<open>
  What \<^verbatim>\<open>getWorkFromQueue\<close> reads from its environment: \<^verbatim>\<open>env.useServiceQueues\<close>,
  \<^verbatim>\<open>getQueueUrlForService\<close>, whether \<^verbatim>\<open>getQueueForUrl\<close> finds a queue,
  \<^verbatim>\<open>processSchedulerQueue\<close> of ./util (not among the sources) and \<^verbatim>\<open>JSON.parse\<close> of a
  message body as \<^verbatim>\<open>WorkItemData\<close>.
\<close>

record ('db, 'q) queueEnv =
  useServiceQueues :: bool
  getQueueUrlForService :: "string \<Rightarrow> string"
  getQueueForUrl :: "string \<Rightarrow> bool"
  processSchedulerQueue :: "(('db, 'q) queueWorld, unit) io"
  JSON_parse_WorkItemData :: "string \<Rightarrow> exn + WorkItemData"

definition onQueue :: "string \<Rightarrow> ('q \<Rightarrow> exn + 'a \<times> 'q) \<Rightarrow> (('db, 'q) queueWorld, 'a) io" where
  "onQueue url call w =
     (case call (queues w url) of
        Inl e \<Rightarrow> (Inl e, w)
      | Inr (x, q) \<Rightarrow> (Inr x, w\<lparr>queues := (queues w)(url := q)\<rparr>))"

text \<open>\<^verbatim>\<open>makeWorkScheduleRequest(serviceID)\<close>\<close>

definition makeWorkScheduleRequest ::
  "('db, 'q) queueEnv \<Rightarrow> 'q queueOps \<Rightarrow> string \<Rightarrow> (('db, 'q) queueWorld, unit) io" where
  "makeWorkScheduleRequest env qops serviceID w =
     (if useServiceQueues env
      then (case sendMessage qops (workSchedulerQueue w) serviceID of
              Inl e \<Rightarrow> (Inl e, w)
            | Inr q \<Rightarrow> (Inr (), w\<lparr>workSchedulerQueue := q\<rparr>))
      else (Inr (), w))"

text \<open>
  The callback that \<^verbatim>\<open>getWorkFromQueue\<close> passes to \<^verbatim>\<open>db.transaction\<close>. Its
  \<^verbatim>\<open>return null\<close> returns from the callback, and the caller drops the callback's value.
\<close>

definition checkCanceledAndRun :: "'db dbOps \<Rightarrow> WorkItemData \<Rightarrow> (('db, 'z) world_scheme, unit) io" where
  "checkCanceledAndRun ops item =
     bindIO (dbRead (\<lambda>tx. getWorkItemStatus ops tx (itemID (workItem item)))) (\<lambda>currentStatus.
       if currentStatus = Some CANCELED
       then logMsg Debug (''Work item '' @ showNat (itemID (workItem item)) @ '' was canceled, skipping'')
       else dbWrite (\<lambda>tx. updateWorkItemStatuses ops tx [itemID (workItem item)] RUNNING))"

text \<open>
  \<^verbatim>\<open>getWorkFromQueue\<close>, first part: the short poll and, when it finds nothing, the
  request to the scheduler and the long poll. Its value is \<^verbatim>\<open>queueItem\<close>.
\<close>

definition pollQueue ::
  "('db, 'q) queueEnv \<Rightarrow> 'q queueOps \<Rightarrow> string \<Rightarrow> (('db, 'q) queueWorld, QueueMessage option) io" where
  "pollQueue env qops serviceID =
     (let queueUrl = getQueueUrlForService env serviceID in
      bindIO (logMsg Debug (''Short polling for work from queue '' @ queueUrl @ '' for service '' @ serviceID)) (\<lambda>_.
      if \<not> getQueueForUrl env queueUrl then throw (Error (''No queue found for URL '' @ queueUrl)) else
      bindIO (onQueue queueUrl (\<lambda>q. getMessage qops q (Some 0))) (\<lambda>queueItem.
        case queueItem of
          Some m \<Rightarrow> ret (Some m)
        | None \<Rightarrow>
            bindIO (logMsg Debug (''No work found on queue '' @ queueUrl @ '' for service '' @ serviceID @
                      '' - requesting work from scheduler'')) (\<lambda>_.
            bindIO (makeWorkScheduleRequest env qops serviceID) (\<lambda>_.
            bindIO (processSchedulerQueue env) (\<lambda>_.
            bindIO (logMsg Debug (''Long polling for work on queue '' @ queueUrl @ '' for service '' @ serviceID)) (\<lambda>_.
            onQueue queueUrl (\<lambda>q. getMessage qops q None))))))))"

text \<open>
  \<^verbatim>\<open>getWorkFromQueue\<close>, second part: \<^verbatim>\<open>if (queueItem) { ... } else { ... } return null\<close>.
  The message is deleted and its body parsed before the \<^verbatim>\<open>try\<close> block; \<^verbatim>\<open>return item\<close>
  follows the transaction inside the \<^verbatim>\<open>try\<close> block, and the \<^verbatim>\<open>catch\<close> block falls
  through to \<^verbatim>\<open>return null\<close>.
\<close>

definition handleQueueItem ::
  "('db, 'q) queueEnv \<Rightarrow> 'q queueOps \<Rightarrow> 'db dbOps \<Rightarrow> string \<Rightarrow> QueueMessage option \<Rightarrow>
     (('db, 'q) queueWorld, WorkItemData option) io" where
  "handleQueueItem env qops ops serviceID queueItem =
     (let queueUrl = getQueueUrlForService env serviceID in
      case queueItem of
        Some qi \<Rightarrow>
          bindIO (logMsg Debug (''Found work item on queue '' @ queueUrl)) (\<lambda>_.
          bindIO (onQueue queueUrl (\<lambda>q. map_sum id (Pair ()) (deleteMessage qops q (receipt qi)))) (\<lambda>_.
          bindIO (logMsg Debug (''Deleted work item with receipt '' @ receipt qi @ '' from queue '' @ queueUrl)) (\<lambda>_.
          bindIO (\<lambda>w. (JSON_parse_WorkItemData env (body qi), w)) (\<lambda>item.
          tryCatch
            (bindIO (transaction ops (checkCanceledAndRun ops item)) (\<lambda>_. ret (Some item)))
            (\<lambda>err. bindIO (logMsg Err (''Error updating work item status to running: '' @ exnMessage err))
                      (\<lambda>_. ret None))))))
      | None \<Rightarrow>
          bindIO (logMsg Debug (''No work found on queue '' @ queueUrl @ '' for service '' @ serviceID))
            (\<lambda>_. ret None))"

text \<open>\<^verbatim>\<open>getWorkFromQueue(serviceID, reqLogger)\<close>\<close>

definition getWorkFromQueue ::
  "('db, 'q) queueEnv \<Rightarrow> 'q queueOps \<Rightarrow> 'db dbOps \<Rightarrow> string \<Rightarrow>
     (('db, 'q) queueWorld, WorkItemData option) io" where
  "getWorkFromQueue env qops ops serviceID =
     bindIO (pollQueue env qops serviceID) (handleQueueItem env qops ops serviceID)"

text \<open>
  The state after the message \<open>qi\<close> has been deleted, leaving the queue at \<open>queueUrl\<close> as
  \<open>q\<close>, and the two debug lines around the deletion have been logged.
\<close>

definition afterDelete ::
  "string \<Rightarrow> QueueMessage \<Rightarrow> 'q \<Rightarrow> ('db, 'q) queueWorld \<Rightarrow> ('db, 'q) queueWorld" where
  "afterDelete queueUrl qi q w =
     w\<lparr>queues := (queues w)(queueUrl := q),
       logs := logs w @ [logString Debug (''Found work item on queue '' @ queueUrl),
                         logString Debug (''Deleted work item with receipt '' @ receipt qi @
                                            '' from queue '' @ queueUrl)]\<rparr>"

section \<open>An in-memory store and queue\<close>

text \<open>
  Modelled from the spec: the WorkItemStore of the spec's section 4.1 and its UserWork
  counts, in memory (models/work-item.ts and models/user-work.ts are not among the
  sources). The pollers are proved for every store; this one runs them on concrete
  inputs. \<open>broken\<close> names the operations that throw.
\<close>

record UserWork =
  username :: string
  userJobID :: string
  userServiceID :: string
  readyCount :: nat
  runningCount :: nat

record memDb =
  workItemRows :: "(WorkItemRecord \<times> WorkItemStatus) list"
  userWorkRows :: "UserWork list"
  broken :: "string list"

definition failIf :: "string \<Rightarrow> memDb \<Rightarrow> exn + 'a \<Rightarrow> exn + 'a" where
  "failIf name d r = (if name \<in> set (broken d) then Inl (Error (name @ '' failed'')) else r)"

text \<open>The first \<open>n\<close> READY rows of a service and job, set to RUNNING.\<close>

fun claimRows ::
  "nat \<Rightarrow> string \<Rightarrow> string \<Rightarrow> (WorkItemRecord \<times> WorkItemStatus) list \<Rightarrow>
     WorkItemRecord list \<times> (WorkItemRecord \<times> WorkItemStatus) list" where
  "claimRows 0 s j rs = ([], rs)"
| "claimRows (Suc n) s j [] = ([], [])"
| "claimRows (Suc n) s j ((wi, st) # rs) =
     (if st = READY \<and> itemServiceID wi = s \<and> itemJobID wi = j
      then (case claimRows n s j rs of (xs, rs') \<Rightarrow> (wi # xs, (wi, RUNNING) # rs'))
      else (case claimRows (Suc n) s j rs of (xs, rs') \<Rightarrow> (xs, (wi, st) # rs')))"

definition countRows :: "memDb \<Rightarrow> string \<Rightarrow> string \<Rightarrow> WorkItemStatus \<Rightarrow> nat" where
  "countRows d j s st =
     length (filter (\<lambda>(wi, st'). st' = st \<and> itemJobID wi = j \<and> itemServiceID wi = s) (workItemRows d))"

definition memOps :: "memDb dbOps" where
  "memOps =
     \<lparr>getNextUsernameForWork = (\<lambda>d s. failIf ''getNextUsernameForWork'' d
         (Inr (map_option username
                (find (\<lambda>u. userServiceID u = s \<and> readyCount u > 0) (userWorkRows d))))),
      getNextJobIdForUsernameAndService = (\<lambda>d s u. failIf ''getNextJobIdForUsernameAndService'' d
         (Inr (map_option userJobID
                (find (\<lambda>r. userServiceID r = s \<and> username r = u \<and> readyCount r > 0) (userWorkRows d))))),
      getNextJobIds = (\<lambda>d s n. failIf ''getNextJobIds'' d
         (Inr (take n (remdups (map userJobID
                (filter (\<lambda>r. userServiceID r = s \<and> readyCount r > 0) (userWorkRows d))))))),
      getNextWorkItem = (\<lambda>d s j. failIf ''getNextWorkItem'' d
         (case claimRows 1 s j (workItemRows d) of
            (xs, rs) \<Rightarrow> Inr (case xs of [] \<Rightarrow> None | x # _ \<Rightarrow> Some x, d\<lparr>workItemRows := rs\<rparr>))),
      getNextWorkItems = (\<lambda>d s j n. failIf ''getNextWorkItems'' d
         (case claimRows (nat n) s j (workItemRows d) of
            (xs, rs) \<Rightarrow> Inr (Some xs, d\<lparr>workItemRows := rs\<rparr>))),
      incrementRunningAndDecrementReadyCounts = (\<lambda>d j s c. failIf ''incrementRunningAndDecrementReadyCounts'' d
         (Inr (d\<lparr>userWorkRows := map (\<lambda>r. if userJobID r = j \<and> userServiceID r = s
                   then r\<lparr>readyCount := readyCount r - nat (case c of None \<Rightarrow> 1 | Some k \<Rightarrow> k),
                          runningCount := runningCount r + nat (case c of None \<Rightarrow> 1 | Some k \<Rightarrow> k)\<rparr>
                   else r) (userWorkRows d)\<rparr>))),
      recalculateCounts = (\<lambda>d j. failIf ''recalculateCounts'' d
         (Inr (d\<lparr>userWorkRows := map (\<lambda>r. if userJobID r = j
                   then r\<lparr>readyCount := countRows d j (userServiceID r) READY,
                          runningCount := countRows d j (userServiceID r) RUNNING\<rparr>
                   else r) (userWorkRows d)\<rparr>))),
      calculateQueryCmrLimit = (\<lambda>d wi. failIf ''calculateQueryCmrLimit'' d (Inr 2000)),
      getWorkItemStatus = (\<lambda>d i. failIf ''getWorkItemStatus'' d
         (Inr (map_option snd (find (\<lambda>(wi, st). itemID wi = i) (workItemRows d))))),
      updateWorkItemStatuses = (\<lambda>d ids st. failIf ''updateWorkItemStatuses'' d
         (Inr (d\<lparr>workItemRows := map (\<lambda>(wi, st'). if itemID wi \<in> set ids then (wi, st) else (wi, st'))
                   (workItemRows d)\<rparr>))),
      commitTransaction = (\<lambda>d. failIf ''commit'' d (Inr d)),
      QUERY_CMR_SERVICE_REGEX_test = (\<lambda>s. s = ''harmonyservices/query-cmr:latest'')\<rparr>"

text \<open>
  Modelled from the spec: a queue with \<^verbatim>\<open>getMessage\<close>, \<^verbatim>\<open>deleteMessage(receipt)\<close> and
  \<^verbatim>\<open>sendMessage(body)\<close> of the spec's collaborator interfaces, in memory. A message
  stays at the head until it is deleted.
\<close>

definition memQueue :: "QueueMessage list queueOps" where
  "memQueue =
     \<lparr>getMessage = (\<lambda>q waitSeconds. Inr (case q of [] \<Rightarrow> None | m # _ \<Rightarrow> Some m, q)),
      deleteMessage = (\<lambda>q r. Inr (filter (\<lambda>m. receipt m \<noteq> r) q)),
      sendMessage = (\<lambda>q b. Inr (q @ [\<lparr>body = b, receipt = ''receipt-'' @ showNat (length q)\<rparr>]))\<rparr>"

definition mkUserWork :: "string \<Rightarrow> string \<Rightarrow> nat \<Rightarrow> UserWork" where
  "mkUserWork u j n =
     \<lparr>username = u, userJobID = j, userServiceID = ''svc'', readyCount = n, runningCount = 0\<rparr>"

text \<open>
  An environment with one service queue, at \<open>''queue://svc''\<close>, whose messages hold the
  work item 7 of job A.
\<close>

definition svcEnv :: "(memDb, QueueMessage list) queueEnv" where
  "svcEnv =
     \<lparr>useServiceQueues = True,
      getQueueUrlForService = (\<lambda>s. ''queue://'' @ s),
      getQueueForUrl = (\<lambda>u. u = ''queue://svc''),
      processSchedulerQueue = ret (),
      JSON_parse_WorkItemData =
        (\<lambda>s. if s = ''item7'' then Inr \<lparr>workItem = mkItem 7 ''jobA'', maxCmrGranules = None\<rparr>
              else Inl (SyntaxError ''Unexpected token''))\<rparr>"

definition queueWorldOf :: "memDb \<Rightarrow> QueueMessage list \<Rightarrow> (memDb, QueueMessage list) queueWorld" where
  "queueWorldOf d q =
     \<lparr>db = d, logs = [], queues = (\<lambda>u. if u = ''queue://svc'' then q else []), workSchedulerQueue = []\<rparr>"

text \<open>A store with one ready item of job A and three of job B.\<close>

definition demoDb :: memDb where
  "demoDb =
     \<lparr>workItemRows = [(mkItem 1 ''jobA'', READY), (mkItem 2 ''jobB'', READY),
                      (mkItem 3 ''jobB'', READY), (mkItem 4 ''jobB'', READY)],
      userWorkRows = [mkUserWork ''joe'' ''jobA'' 1, mkUserWork ''amy'' ''jobB'' 3],
      broken = []\<rparr>"

text \<open>
  A store whose counts are out of sync: job A is counted as having a ready item, and its
  only item is running. \<open>resyncedDb\<close> is that store with the counts of job A
  recalculated, and \<open>desyncScope\<close> the scope of the batch loop over it, for a batch
  size of 2, before its first iteration.
\<close>

definition desyncDb :: memDb where
  "desyncDb =
     \<lparr>workItemRows = [(mkItem 1 ''jobA'', RUNNING), (mkItem 2 ''jobB'', READY),
                      (mkItem 3 ''jobB'', READY)],
      userWorkRows = [mkUserWork ''joe'' ''jobA'' 1, mkUserWork ''amy'' ''jobB'' 2],
      broken = []\<rparr>"

definition resyncedDb :: memDb where
  "resyncedDb =
     desyncDb\<lparr>userWorkRows :=
       [\<lparr>username = ''joe'', userJobID = ''jobA'', userServiceID = ''svc'', readyCount = 0,
         runningCount = 1\<rparr>,
        mkUserWork ''amy'' ''jobB'' 2]\<rparr>"

definition desyncScope :: "memDb batchScope" where
  "desyncScope =
     \<lparr>db = desyncDb, logs = [], workItems = [], remainingNumOfJobs = 2, remainingBatchSize = 2\<rparr>"

text \<open>The message of item 7, and stores in which item 7 is the only row.\<close>

definition item7Message :: QueueMessage where
  "item7Message = \<lparr>body = ''item7'', receipt = ''r1''\<rparr>"

definition item7Db :: "WorkItemStatus \<Rightarrow> string list \<Rightarrow> memDb" where
  "item7Db st brokenOps = \<lparr>workItemRows = [(mkItem 7 ''jobA'', st)], userWorkRows = [], broken = brokenOps\<rparr>"

section \<open>Batches (models/batch.ts)\<close>

text \<open>
  \<^verbatim>\<open>BatchRecord\<close>: the serialized fields of a batch that the lookup reads. The table
  \<^verbatim>\<open>batches\<close> is the list of its rows in insertion order.
\<close>

record Batch =
  jobID :: string
  serviceID :: string
  batchID :: int






definition first :: "'a list \<Rightarrow> 'a option" where
  "first rows = (case rows of [] \<Rightarrow> None | r # _ \<Rightarrow> Some r)"



chapter \<open>Properties\<close>

section \<open>Numbers and their text\<close>

lemma Number_rounds:
  "Number ''9007199254740993'' = enat 9007199254740992"
  "Number ''007'' = enat 7"
  by (simp_all add: Number_def toDouble_def digitValue_def bitLength.simps Let_def)

lemma number_text_small: "jsToString (JNum (- 42)) = ''-42''"
  by (simp add: showInt_def numberText_def toDouble_def showNat.simps digitChar_def)

lemma number_text_large: "jsToString (JNum 1000000000000000000000) = ''1e+21''"
  by (simp add: showInt_def numberText_def toDouble_def bitLength.simps shortestDecimal_def
      shortestCandidates_def showNat.simps digitChar_def Let_def)

lemma number_text_rounded: "jsToString (JNum 18446744073709551616) = ''18446744073709552000''"
  by (simp add: showInt_def numberText_def toDouble_def bitLength.simps shortestDecimal_def
      shortestCandidates_def showNat.simps digitChar_def Let_def)

lemma seconds_text:
  "secondsText 1500 = ''1.5''" "secondsText 3000 = ''3''" "secondsText 250 = ''0.25''"
  by (simp_all add: secondsText_def showNat.simps digitChar_def Let_def)

section \<open>Highest batch of a job and service\<close>










section \<open>The user-facing error message of a failed execution\<close>

lemma getErrorMessageOfStatus_cases:
  "getErrorMessageOfStatus st msg =
     (if isOutOfMemory st then ''Service failed due to running out of memory'' else msg)"
  by (simp add: getErrorMessageOfStatus_def)

text \<open>
  The test of \<^verbatim>\<open>_getErrorMessageOfStatus\<close>, written out: the status has details with
  causes, and the first cause whose reason is \<^verbatim>\<open>ExitCode\<close> has the message \<^verbatim>\<open>137\<close>.
\<close>

lemma isOutOfMemory_iff:
  "isOutOfMemory st \<longleftrightarrow>
     (\<exists>d cs c. details st = Some d \<and> causes d = Some cs \<and>
        find (\<lambda>i. reason i = Some ''ExitCode'') cs = Some c \<and> message c = Some ''137'')"
  by (auto simp: isOutOfMemory_def exitCodeCause_def OOM_EXIT_CODE_def split: option.splits)

text \<open>
  Claim C2. The message of \<^verbatim>\<open>_getErrorMessage\<close> follows this precedence. (1) When
  \<^verbatim>\<open>error.json\<close> exists in the output directory and is read as a document whose
  \<^verbatim>\<open>error\<close> property can be read, that property is the message, whatever the status
  says. (2, 3) When the file does not exist, the message is the fixed out-of-memory
  text if the status carries the exit code 137, that is, if the first of its causes
  with the reason \<^verbatim>\<open>ExitCode\<close> has the message \<^verbatim>\<open>137\<close>, and \<open>''Unknown error''\<close> for every
  other status: one without details, without causes, without such a cause, or with
  another exit code. (4) When resolving the file's URL, the existence check, the read
  or the property access throws, the function does not throw: the message is again
  the out-of-memory text if the status carries 137, and
  \<open>''Service terminated without error message''\<close> otherwise.
\<close>

theorem error_message_precedence:
  "(resolveUrl catalogDir ''error.json'' = Inr errorFile \<and>
    objectExists s3 store errorFile = Inr True \<and>
    getObjectJson s3 store errorFile = Inr doc \<and> getProp doc ''error'' = Inr v \<longrightarrow>
      fst (getErrorMessage s3 store resolveUrl st catalogDir lg) = v) \<and>
   (resolveUrl catalogDir ''error.json'' = Inr errorFile \<and>
    objectExists s3 store errorFile = Inr False \<longrightarrow>
      fst (getErrorMessage s3 store resolveUrl st catalogDir lg) =
        Some (JStr (if (\<exists>d cs c. details st = Some d \<and> causes d = Some cs \<and>
                          find (\<lambda>i. reason i = Some ''ExitCode'') cs = Some c \<and>
                          message c = Some ''137'')
                    then ''Service failed due to running out of memory''
                    else ''Unknown error''))) \<and>
   (resolveUrl catalogDir ''error.json'' = Inl e \<or>
    resolveUrl catalogDir ''error.json'' = Inr errorFile \<and>
      (objectExists s3 store errorFile = Inl e \<or>
       objectExists s3 store errorFile = Inr True \<and>
         (getObjectJson s3 store errorFile = Inl e \<or>
          getObjectJson s3 store errorFile = Inr doc \<and> getProp doc ''error'' = Inl e)) \<longrightarrow>
      fst (getErrorMessage s3 store resolveUrl st catalogDir lg) =
        Some (JStr (if (\<exists>d cs c. details st = Some d \<and> causes d = Some cs \<and>
                          find (\<lambda>i. reason i = Some ''ExitCode'') cs = Some c \<and>
                          message c = Some ''137'')
                    then ''Service failed due to running out of memory''
                    else ''Service terminated without error message'')))"
  unfolding isOutOfMemory_iff[symmetric]
  by (auto simp: getErrorMessage_def getErrorMessageCatch_def getErrorMessageOfStatus_cases)

theorem error_message_precedence_witness:
  "fst (getErrorMessage memoryStore
          [(''s3://out/error.json'', JObj [(''error'', JStr ''No granules found'')])]
          joinUrl (exitStatus ''137'') ''s3://out/'' []) = Some (JStr ''No granules found'') \<and>
   fst (getErrorMessage memoryStore [] joinUrl (exitStatus ''137'') ''s3://out/'' []) =
     Some (JStr ''Service failed due to running out of memory'') \<and>
   fst (getErrorMessage memoryStore [] joinUrl (exitStatus ''1'') ''s3://out/'' []) =
     Some (JStr ''Unknown error'') \<and>
   fst (getErrorMessage memoryStore [(''s3://out/error.json'', JNull)]
          joinUrl (exitStatus ''137'') ''s3://out/'' []) =
     Some (JStr ''Service failed due to running out of memory'') \<and>
   fst (getErrorMessage memoryStore [(''s3://out/error.json'', JNull)]
          joinUrl (exitStatus ''1'') ''s3://out/'' []) =
     Some (JStr ''Service terminated without error message'')"
proof -
  have url: "joinUrl ''s3://out/'' ''error.json'' = Inr ''s3://out/error.json''"
    by (simp add: joinUrl_def)
  have unreadable: "getProp JNull ''error'' =
      Inl (TypeError ''Cannot read properties of null (reading 'error')'')"
    by simp
  have a: "fst (getErrorMessage memoryStore
          [(''s3://out/error.json'', JObj [(''error'', JStr ''No granules found'')])]
          joinUrl (exitStatus ''137'') ''s3://out/'' []) = Some (JStr ''No granules found'')"
    using error_message_precedence[of joinUrl "''s3://out/''" "''s3://out/error.json''" memoryStore
        "[(''s3://out/error.json'', JObj [(''error'', JStr ''No granules found'')])]"
        "JObj [(''error'', JStr ''No granules found'')]" "Some (JStr ''No granules found'')"
        "exitStatus ''137''" "[]"] url
    by (simp add: memoryStore_def)
  have b: "fst (getErrorMessage memoryStore [] joinUrl (exitStatus ''137'') ''s3://out/'' []) =
     Some (JStr ''Service failed due to running out of memory'')"
    using error_message_precedence[of joinUrl "''s3://out/''" "''s3://out/error.json''" memoryStore
        "[]" _ _ "exitStatus ''137''" "[]"] url
    by (simp add: memoryStore_def exitStatus_def)
  have c: "fst (getErrorMessage memoryStore [] joinUrl (exitStatus ''1'') ''s3://out/'' []) =
     Some (JStr ''Unknown error'')"
    using error_message_precedence[of joinUrl "''s3://out/''" "''s3://out/error.json''" memoryStore
        "[]" _ _ "exitStatus ''1''" "[]"] url
    by (simp add: memoryStore_def exitStatus_def)
  have d: "fst (getErrorMessage memoryStore [(''s3://out/error.json'', JNull)]
          joinUrl (exitStatus ''137'') ''s3://out/'' []) =
     Some (JStr ''Service failed due to running out of memory'')"
    using error_message_precedence[of joinUrl "''s3://out/''" "''s3://out/error.json''" memoryStore
        "[(''s3://out/error.json'', JNull)]" JNull _ "exitStatus ''137''" "[]"
        "TypeError ''Cannot read properties of null (reading 'error')''"] url unreadable
    by (simp add: memoryStore_def exitStatus_def)
  have e: "fst (getErrorMessage memoryStore [(''s3://out/error.json'', JNull)]
          joinUrl (exitStatus ''1'') ''s3://out/'' []) =
     Some (JStr ''Service terminated without error message'')"
    using error_message_precedence[of joinUrl "''s3://out/''" "''s3://out/error.json''" memoryStore
        "[(''s3://out/error.json'', JNull)]" JNull _ "exitStatus ''1''" "[]"
        "TypeError ''Cannot read properties of null (reading 'error')''"] url unreadable
    by (simp add: memoryStore_def exitStatus_def)
  from a b c d e show ?thesis by simp
qed

section \<open>Uploading the logs of an execution\<close>

text \<open>
  Claim C6. \<^verbatim>\<open>uploadLogs\<close> writes one JSON array to the item's log location. When an
  array \<open>old\<close> is stored there already, the array written is \<open>old\<close>, unchanged and in
  front, then the retry marker, then the captured logs in their order; when nothing is
  stored there, it is the marker and the logs. The marker is the retry message, as a
  string or as the \<^verbatim>\<open>message\<close> of an object, and the retry message names the item's
  \<^verbatim>\<open>retryCount\<close> and \<^verbatim>\<open>id\<close>.
\<close>

theorem upload_logs_appends:
  "(objectExists s3 store (loc wi) = Inr True \<and> getObjectJson s3 store (loc wi) = Inr (JArr old) \<longrightarrow>
      uploadLogs s3 loc wi lgs store =
        upload s3 store (JArr (old @ [retryMarker wi lgs] @ lgs)) (loc wi)) \<and>
   (objectExists s3 store (loc wi) = Inr False \<longrightarrow>
      uploadLogs s3 loc wi lgs store =
        upload s3 store (JArr ([retryMarker wi lgs] @ lgs)) (loc wi)) \<and>
   (retryMarker wi lgs = JStr (retryMessage wi) \<or>
    retryMarker wi lgs = JObj [(''message'', JStr (retryMessage wi))]) \<and>
   retryMessage wi =
     ''Start of service execution (retryCount='' @ showNat (retryCount wi) @
     '', id='' @ showNat (itemID wi) @ '')''"
  by (auto simp: uploadLogs_def Let_def retryMarker_def retryMessage_def)

theorem upload_logs_appends_witness:
  "uploadLogs memoryStore logsLocationOf (mkItem 42 ''jobA'') [JStr ''second run'']
     [(''s3://artifacts/logs/42.json'',
       JArr [JStr ''Start of service execution (retryCount=0, id=42)'', JStr ''first run''])] =
   Inr [(''s3://artifacts/logs/42.json'',
         JArr [JStr ''Start of service execution (retryCount=0, id=42)'', JStr ''first run'',
               JStr ''Start of service execution (retryCount=0, id=42)'', JStr ''second run''])]"
proof -
  have l: "logsLocationOf (mkItem 42 ''jobA'') = ''s3://artifacts/logs/42.json''"
    by (simp add: logsLocationOf_def mkItem_def showNat.simps digitChar_def)
  have m: "retryMarker (mkItem 42 ''jobA'') [JStr ''second run''] =
             JStr ''Start of service execution (retryCount=0, id=42)''"
    by (simp add: retryMarker_def retryMessage_def mkItem_def showNat.simps digitChar_def)
  have ex: "objectExists memoryStore
               [(''s3://artifacts/logs/42.json'',
                 JArr [JStr ''Start of service execution (retryCount=0, id=42)'', JStr ''first run''])]
               (logsLocationOf (mkItem 42 ''jobA'')) = Inr True \<and>
            getObjectJson memoryStore
               [(''s3://artifacts/logs/42.json'',
                 JArr [JStr ''Start of service execution (retryCount=0, id=42)'', JStr ''first run''])]
               (logsLocationOf (mkItem 42 ''jobA'')) =
              Inr (JArr [JStr ''Start of service execution (retryCount=0, id=42)'', JStr ''first run''])"
    by (simp add: l memoryStore_def)
  from upload_logs_appends[of memoryStore
        "[(''s3://artifacts/logs/42.json'',
           JArr [JStr ''Start of service execution (retryCount=0, id=42)'', JStr ''first run''])]"
        logsLocationOf "mkItem 42 ''jobA''"
        "[JStr ''Start of service execution (retryCount=0, id=42)'', JStr ''first run'']"
        "[JStr ''second run'']", THEN conjunct1, THEN mp, OF ex]
  show ?thesis by (simp add: l m memoryStore_def)
qed

text \<open>On the in-memory store, reading the location back gives the appended array.\<close>

lemma upload_logs_read_back:
  assumes "map_of s (loc wi) = Some (JArr old)"
  shows "\<exists>s'. uploadLogs memoryStore loc wi lgs s = Inr s' \<and>
              getObjectJson memoryStore s' (loc wi) = Inr (JArr (old @ retryMarker wi lgs # lgs))"
  using assms by (simp add: uploadLogs_def Let_def memoryStore_def update_conv)

section \<open>Capturing the worker's log stream\<close>

lemma workerPropName_timestamp: "workerPropName ''timestamp'' = ''workerTimestamp''"
  by (simp add: workerPropName_def toUpperCase_def)

lemma workerPropName_level: "workerPropName ''level'' = ''workerLevel''"
  by (simp add: workerPropName_def toUpperCase_def)

lemma renameProps_object:
  "renameProps [''timestamp'', ''level''] (JObj fs) =
     Inr (JObj (renameProp ''level'' (renameProp ''timestamp'' fs)))"
  by (simp add: hasProp_def renameProp_def split: option.splits)

lemma map_of_renameProp:
  "map_of (renameProp p fs) k =
     (if map_of fs p = None then map_of fs k
      else if k = p then None
      else if k = workerPropName p then map_of fs p
      else map_of fs k)"
  by (auto simp: renameProp_def delete_conv update_conv split: option.splits)

lemma renamed_properties:
  "map_of (renameProp ''level'' (renameProp ''timestamp'' fs)) ''timestamp'' = None \<and>
   map_of (renameProp ''level'' (renameProp ''timestamp'' fs)) ''level'' = None \<and>
   (map_of fs ''timestamp'' = Some v \<longrightarrow>
      map_of (renameProp ''level'' (renameProp ''timestamp'' fs)) ''workerTimestamp'' = Some v) \<and>
   (map_of fs ''level'' = Some v \<longrightarrow>
      map_of (renameProp ''level'' (renameProp ''timestamp'' fs)) ''workerLevel'' = Some v) \<and>
   (k \<noteq> ''timestamp'' \<and> k \<noteq> ''level'' \<and> k \<noteq> ''workerTimestamp'' \<and> k \<noteq> ''workerLevel'' \<longrightarrow>
      map_of (renameProp ''level'' (renameProp ''timestamp'' fs)) k = map_of fs k)"
  by (simp add: map_of_renameProp workerPropName_timestamp workerPropName_level)

lemma handleLogString_calls_tagged:
  "\<exists>calls. streamLogger (handleLogString JSON_parse logStr this) = streamLogger this @ calls \<and>
           list_all workerTagged calls"
  by (auto simp: handleLogString_def update_conv split: option.splits sum.splits)

text \<open>
  Claim C8, as amended. A chunk that parses as a JSON object is stored in
  \<^verbatim>\<open>logStrArr\<close> as that object with a \<^verbatim>\<open>timestamp\<close> or \<^verbatim>\<open>level\<close> property renamed
  to \<^verbatim>\<open>workerTimestamp\<close> or \<^verbatim>\<open>workerLevel\<close> (no property of either old name is left,
  the new names hold the old values, every other property is as parsed), and the same
  object with \<^verbatim>\<open>worker: true\<close> added is logged. A chunk that does not parse as JSON is
  stored as the plain text line and logged with the metadata \<^verbatim>\<open>worker: true\<close>. For
  every chunk, each call made on the logger is tagged as the worker's; the tag is on the
  logged entries only, a stored entry keeps the \<^verbatim>\<open>worker\<close> property it was parsed
  with.
\<close>

theorem worker_log_capture:
  "(JSON_parse logStr = Some (JObj fs) \<longrightarrow>
      handleLogString JSON_parse logStr this =
        this\<lparr>logStrArr := logStrArr this @ [JObj (renameProp ''level'' (renameProp ''timestamp'' fs))],
             streamLogger := streamLogger this @
               [LogCall Debug
                  (JObj (AList.update ''worker'' (JBool True)
                           (renameProp ''level'' (renameProp ''timestamp'' fs)))) []]\<rparr> \<and>
      map_of (renameProp ''level'' (renameProp ''timestamp'' fs)) ''timestamp'' = None \<and>
      map_of (renameProp ''level'' (renameProp ''timestamp'' fs)) ''level'' = None \<and>
      (\<forall>v. map_of fs ''timestamp'' = Some v \<longrightarrow>
         map_of (renameProp ''level'' (renameProp ''timestamp'' fs)) ''workerTimestamp'' = Some v) \<and>
      (\<forall>v. map_of fs ''level'' = Some v \<longrightarrow>
         map_of (renameProp ''level'' (renameProp ''timestamp'' fs)) ''workerLevel'' = Some v) \<and>
      (\<forall>k. k \<noteq> ''timestamp'' \<and> k \<noteq> ''level'' \<and> k \<noteq> ''workerTimestamp'' \<and> k \<noteq> ''workerLevel'' \<longrightarrow>
         map_of (renameProp ''level'' (renameProp ''timestamp'' fs)) k = map_of fs k)) \<and>
   (JSON_parse logStr = None \<longrightarrow>
      handleLogString JSON_parse logStr this =
        this\<lparr>logStrArr := logStrArr this @ [JStr logStr],
             streamLogger := streamLogger this @
               [LogCall Debug (JStr logStr) [(''worker'', JBool True)]]\<rparr>) \<and>
   (\<exists>calls. streamLogger (handleLogString JSON_parse logStr this) = streamLogger this @ calls \<and>
            list_all workerTagged calls)"
proof -
  have obj: "JSON_parse logStr = Some (JObj fs) \<Longrightarrow>
      handleLogString JSON_parse logStr this =
        this\<lparr>logStrArr := logStrArr this @ [JObj (renameProp ''level'' (renameProp ''timestamp'' fs))],
             streamLogger := streamLogger this @
               [LogCall Debug
                  (JObj (AList.update ''worker'' (JBool True)
                           (renameProp ''level'' (renameProp ''timestamp'' fs)))) []]\<rparr>"
    by (simp add: handleLogString_def renameProps_object del: renameProps.simps)
  have plain: "JSON_parse logStr = None \<Longrightarrow>
      handleLogString JSON_parse logStr this =
        this\<lparr>logStrArr := logStrArr this @ [JStr logStr],
             streamLogger := streamLogger this @
               [LogCall Debug (JStr logStr) [(''worker'', JBool True)]]\<rparr>"
    by (simp add: handleLogString_def)
  from obj plain renamed_properties[of fs] handleLogString_calls_tagged[of JSON_parse logStr this]
  show ?thesis by blast
qed

theorem worker_log_capture_witness:
  "handleLogString
     (parseOnly ''{\"timestamp\":1,\"level\":\"info\",\"message\":\"hi\"}''
        (JObj [(''timestamp'', JNum 1), (''level'', JStr ''info''), (''message'', JStr ''hi'')]))
     ''{\"timestamp\":1,\"level\":\"info\",\"message\":\"hi\"}'' emptyLogStream =
   \<lparr>streamLogger =
      [LogCall Debug
         (JObj [(''message'', JStr ''hi''), (''workerTimestamp'', JNum 1),
                (''workerLevel'', JStr ''info''), (''worker'', JBool True)]) []],
    logStrArr =
      [JObj [(''message'', JStr ''hi''), (''workerTimestamp'', JNum 1),
             (''workerLevel'', JStr ''info'')]]\<rparr>"
proof -
  have r: "renameProp ''level'' (renameProp ''timestamp''
             [(''timestamp'', JNum 1), (''level'', JStr ''info''), (''message'', JStr ''hi'')]) =
           [(''message'', JStr ''hi''), (''workerTimestamp'', JNum 1), (''workerLevel'', JStr ''info'')]"
    by (simp add: renameProp_def workerPropName_timestamp workerPropName_level)
  show ?thesis
    using worker_log_capture[of
        "parseOnly ''{\"timestamp\":1,\"level\":\"info\",\"message\":\"hi\"}''
           (JObj [(''timestamp'', JNum 1), (''level'', JStr ''info''), (''message'', JStr ''hi'')])"
        "''{\"timestamp\":1,\"level\":\"info\",\"message\":\"hi\"}''"
        "[(''timestamp'', JNum 1), (''level'', JStr ''info''), (''message'', JStr ''hi'')]"
        emptyLogStream]
    by (simp add: r parseOnly_def emptyLogStream_def)
qed

text \<open>
  The claim as stated fails: the chunk \<^verbatim>\<open>{"message":"hi"}\<close> is stored in
  \<^verbatim>\<open>logStrArr\<close> as parsed, without \<^verbatim>\<open>worker: true\<close>; the tag is added to a copy, for
  the logger.
\<close>

theorem stored_entry_is_not_tagged:
  "logStrArr (handleLogString (parseOnly ''{\"message\":\"hi\"}'' (JObj [(''message'', JStr ''hi'')]))
                ''{\"message\":\"hi\"}'' emptyLogStream) = [JObj [(''message'', JStr ''hi'')]] \<and>
   \<not> list_all entryTagged
        (logStrArr (handleLogString (parseOnly ''{\"message\":\"hi\"}'' (JObj [(''message'', JStr ''hi'')]))
                      ''{\"message\":\"hi\"}'' emptyLogStream))"
  by (simp add: handleLogString_def parseOnly_def emptyLogStream_def hasProp_def)

section \<open>Collecting the output catalogs\<close>

lemma getStacCatalogs_manifest:
  assumes "objectExists s3 store (dir @ ''batch-catalogs.json'') = Inr True"
    and "getObjectJson s3 store (dir @ ''batch-catalogs.json'') = Inr (JArr (map JStr names))"
  shows "getStacCatalogs s3 bucket dir store = Inr (map (\<lambda>n. dir @ n) names)"
  using assms by (simp add: getStacCatalogs_def Let_def comp_def)

lemma sortByCatalogNum_sorted:
  assumes "\<forall>u \<in> set urls. fileNumMatch u \<noteq> None"
  shows "\<exists>sorted_urls. sortByCatalogNum urls = Inr sorted_urls \<and> mset sorted_urls = mset urls \<and>
           sorted (map (\<lambda>u. Number (the (fileNumMatch u))) sorted_urls)"
proof (cases "length urls \<le> 1")
  case True
  then have "sorted (map (\<lambda>u. Number (the (fileNumMatch u))) urls)"
    by (cases urls) (auto simp: le_Suc_eq)
  with True show ?thesis by (simp add: sortByCatalogNum_def)
next
  case False
  have ok: "\<And>u. u \<in> set urls \<Longrightarrow> catalogNum u = Inr (Number (the (fileNumMatch u)))"
    using assms by (auto simp: catalogNum_def split: option.splits)
  then have none: "find (\<lambda>u. isl (catalogNum u)) urls = None"
    by (auto simp: find_None_iff)
  have key: "map (\<lambda>u. Number (the (fileNumMatch u))) (sort_key (\<lambda>u. projr (catalogNum u)) urls) =
             map (\<lambda>u. projr (catalogNum u)) (sort_key (\<lambda>u. projr (catalogNum u)) urls)"
    using ok by (intro map_cong) auto
  have "sorted (map (\<lambda>u. projr (catalogNum u)) (sort_key (\<lambda>u. projr (catalogNum u)) urls))"
    by (rule sorted_sort_key)
  then have "sorted (map (\<lambda>u. Number (the (fileNumMatch u))) (sort_key (\<lambda>u. projr (catalogNum u)) urls))"
    by (simp only: key)
  moreover have "sortByCatalogNum urls = Inr (sort_key (\<lambda>u. projr (catalogNum u)) urls)"
    using False none by (simp add: sortByCatalogNum_def)
  ultimately show ?thesis by simp
qed

lemma getStacCatalogs_numeric_order:
  "getStacCatalogs (listingStore [''out/catalog10.json'', ''out/catalog0.json'', ''out/catalog2.json''])
     ''bucket'' ''s3://bucket/out/'' () =
   Inr [''s3://bucket/out/catalog0.json'', ''s3://bucket/out/catalog2.json'',
        ''s3://bucket/out/catalog10.json'']"
  by (simp add: getStacCatalogs_def listingStore_def matchesCatalogKey_def stripSuffix_def
      endsWith_def isDigit_def isLineTerminator_def sortByCatalogNum_def catalogNum_def
      fileNumMatch_def Number_def toDouble_def digitValue_def Let_def)

text \<open>
  Claim C4. With a manifest, \<^verbatim>\<open>_getStacCatalogs\<close> returns the listed file names in the
  listed order behind the directory, and without one it sorts the matching files by
  their number (\<open>getStacCatalogs_manifest\<close>, \<open>sortByCatalogNum_sorted\<close> and
  \<open>getStacCatalogs_numeric_order\<close> above). The number of a file whose name has none does
  not default to 0, though: the file \<^verbatim>\<open>catalog.json\<close> passes the filter
  \<^verbatim>\<open>/catalog\d*.json$/\<close>, the match against \<^verbatim>\<open>/.*catalog(\d+)\.json$/\<close> is
  \<^verbatim>\<open>null\<close>, and the comparator reads \<^verbatim>\<open>aMatches.length\<close> before it reaches its
  default. Listed together with \<^verbatim>\<open>catalog0.json\<close>, the function throws a
  \<^verbatim>\<open>TypeError\<close>.
\<close>

theorem catalog_without_index_throws:
  "getStacCatalogs (listingStore [''out/catalog.json'', ''out/catalog0.json''])
     ''bucket'' ''s3://bucket/out/'' () =
   Inl (TypeError ''Cannot read properties of null (reading 'length')'')"
  by (simp add: getStacCatalogs_def listingStore_def matchesCatalogKey_def stripSuffix_def
      endsWith_def isDigit_def isLineTerminator_def sortByCatalogNum_def catalogNum_def
      fileNumMatch_def Let_def)

section \<open>Polling the database for one work item\<close>

text \<open>A throw inside the callback leaves \<^verbatim>\<open>result\<close> as it was: it is assigned last.\<close>

lemma getWorkFromDatabaseTx_throw:
  "getWorkFromDatabaseTx ops sid w = (Inl e, w') \<Longrightarrow> result w' = result w"
  by (auto simp: getWorkFromDatabaseTx_def bindIO_def dbRead_def dbRun_def dbWrite_def logMsg_def
      setResult_def ret_def split: sum.splits prod.splits option.splits if_splits)

lemma getWorkFromDatabase_callback_throws:
  assumes "getWorkFromDatabaseTx ops sid \<lparr>db = db w, logs = logs w, result = None\<rparr> = (Inl e, s)"
  shows "getWorkFromDatabase ops sid w =
           (None, \<lparr>db = db w,
                   logs = logs s @ [logString Err (''Error getting work from database: '' @ exnMessage e)]\<rparr>)"
  using assms getWorkFromDatabaseTx_throw[OF assms]
  by (simp add: getWorkFromDatabase_def tryCatch_def transaction_def logMsg_def)

lemma getWorkFromDatabase_out_of_sync:
  assumes "getNextUsernameForWork ops (db w) sid = Inr (Some u)" "u \<noteq> []"
    and "getNextJobIdForUsernameAndService ops (db w) sid u = Inr (Some j)" "j \<noteq> []"
    and "getNextWorkItem ops (db w) sid j = Inr (None, d1)"
    and "recalculateCounts ops d1 j = Inr d2"
    and "commitTransaction ops d2 = Inr d3"
  shows "getWorkFromDatabase ops sid w =
           (None, \<lparr>db = d3,
                   logs = logs w @
                     [logString Warn (''user_work is out of sync for user '' @ u @ '' and job '' @ j @
                                        '', could not find ready work item''),
                      logString Warn (''recalculating ready and running counts for job '' @ j)]\<rparr>)"
  using assms
  by (simp add: getWorkFromDatabase_def tryCatch_def transaction_def getWorkFromDatabaseTx_def
      bindIO_def dbRead_def dbRun_def dbWrite_def logMsg_def)

text \<open>
  Claim C7. When a query inside the transaction throws, \<^verbatim>\<open>getWorkFromDatabase\<close> logs
  the error and returns \<^verbatim>\<open>null\<close> (\<open>getWorkFromDatabase_callback_throws\<close>), and when the
  chosen job has no ready item it recalculates the job's counts and returns \<^verbatim>\<open>null\<close>
  without a second attempt (\<open>getWorkFromDatabase_out_of_sync\<close>). An error of the
  transaction's commit is logged as well, but \<^verbatim>\<open>null\<close> is not returned then: the callback
  has assigned \<^verbatim>\<open>result\<close> before the commit runs, and \<^verbatim>\<open>result\<close> is returned after the
  \<^verbatim>\<open>catch\<close> block. With one ready item and a commit that fails, the function returns the
  item, and the database is as before: the item is still READY there.
\<close>

theorem commit_failure_returns_item:
  "getWorkFromDatabase memOps ''svc'' \<lparr>db = demoDb\<lparr>broken := [''commit'']\<rparr>, logs = []\<rparr> =
     (Some \<lparr>workItem = mkItem 1 ''jobA'', maxCmrGranules = None\<rparr>,
      \<lparr>db = demoDb\<lparr>broken := [''commit'']\<rparr>,
        logs = [logString Err ''Error getting work from database: commit failed'']\<rparr>)"
  by (simp add: getWorkFromDatabase_def tryCatch_def transaction_def getWorkFromDatabaseTx_def
      bindIO_def dbRead_def dbRun_def dbWrite_def logMsg_def setResult_def
      memOps_def failIf_def demoDb_def mkItem_def mkUserWork_def)

section \<open>The batch path of the poller\<close>

lemma length_shuffleLoop: "length (shuffleLoop random k xs) = length xs"
  by (induction k arbitrary: xs) (simp_all add: Let_def)

lemma mset_shuffleLoop: "k < length xs \<Longrightarrow> mset (shuffleLoop random k xs) = mset xs"
proof (induction k arbitrary: xs)
  case 0
  then show ?case by simp
next
  case (Suc k)
  let ?j = "random (Suc k) mod (Suc k + 1)"
  have j: "?j < length xs" using Suc.prems
    by (metis Suc_eq_plus1 less_Suc_eq_le mod_less_divisor order_le_less_trans zero_less_Suc)
  have "mset (xs[Suc k := xs ! ?j, ?j := xs ! Suc k]) = mset xs"
    using mset_swap[OF j Suc.prems] by simp
  moreover have "k < length (xs[Suc k := xs ! ?j, ?j := xs ! Suc k])"
    using Suc.prems by simp
  ultimately show ?case using Suc.IH by (simp add: Let_def)
qed

lemma mset_shuffleArray: "mset (shuffleArray random xs) = mset xs"
proof (cases xs)
  case Nil
  then show ?thesis by (simp add: shuffleArray_def)
next
  case (Cons a list)
  then show ?thesis by (simp add: shuffleArray_def mset_shuffleLoop)
qed

lemma length_shuffleArray: "length (shuffleArray random xs) = length xs"
  by (simp add: shuffleArray_def length_shuffleLoop)

lemma shuffleLoop_cong:
  "(\<And>i. 1 \<le> i \<Longrightarrow> i \<le> k \<Longrightarrow> r1 i = r2 i) \<Longrightarrow> shuffleLoop r1 k xs = shuffleLoop r2 k xs"
  by (induction k arbitrary: xs) (simp_all add: Let_def)

lemma mset_take_swap:
  assumes "i < length xs" "j \<le> i"
  shows "mset (take (Suc i) (xs[i := xs ! j, j := xs ! i])) = mset (take (Suc i) xs)"
proof -
  have "take (Suc i) (xs[i := xs ! j, j := xs ! i]) =
        (take (Suc i) xs)[i := take (Suc i) xs ! j, j := take (Suc i) xs ! i]"
    using assms by (simp add: take_update_swap)
  moreover have "mset ((take (Suc i) xs)[i := take (Suc i) xs ! j, j := take (Suc i) xs ! i]) =
                 mset (take (Suc i) xs)"
    using assms by (intro mset_swap) auto
  ultimately show ?thesis by simp
qed

lemma shuffleLoop_reaches:
  "k < length xs \<Longrightarrow> length ys = length xs \<Longrightarrow>
   mset (take (Suc k) ys) = mset (take (Suc k) xs) \<Longrightarrow> drop (Suc k) ys = drop (Suc k) xs \<Longrightarrow>
   \<exists>random. shuffleLoop random k xs = ys"
proof (induction k arbitrary: xs)
  case 0
  then have "take 1 ys = take 1 xs"
    by (cases xs; cases ys) auto
  with 0 have "ys = xs"
    by (metis One_nat_def append_take_drop_id)
  then show ?case by simp
next
  case (Suc k)
  let ?i = "Suc k"
  have iy: "?i < length ys" using Suc.prems by simp
  have "ys ! ?i \<in> set (take (Suc ?i) ys)"
    using iy by (metis in_set_conv_nth length_take lessI min_less_iff_conj nth_take)
  then have "ys ! ?i \<in> set (take (Suc ?i) xs)"
    using Suc.prems(3) by (metis set_mset_mset)
  then obtain j where j: "j < Suc ?i" "xs ! j = ys ! ?i"
    using Suc.prems(1) by (auto simp: in_set_conv_nth)
  then have jle: "j \<le> ?i" by simp
  let ?xs' = "xs[?i := xs ! j, j := xs ! ?i]"
  have at_i: "?xs' ! ?i = ys ! ?i"
    using Suc.prems(1) j jle by (cases "j = ?i") (simp_all add: nth_list_update)
  have len: "length ?xs' = length xs" by simp
  have msw: "mset (take (Suc ?i) ?xs') = mset (take (Suc ?i) xs)"
    by (rule mset_take_swap[OF Suc.prems(1) jle])
  have dr: "drop (Suc ?i) ?xs' = drop (Suc ?i) xs"
    using jle by simp
  have ty: "take (Suc ?i) ys = take ?i ys @ [ys ! ?i]"
    using iy by (simp add: take_Suc_conv_app_nth)
  have tx: "take (Suc ?i) ?xs' = take ?i ?xs' @ [ys ! ?i]"
    using Suc.prems(1) at_i by (simp add: take_Suc_conv_app_nth del: take_update_cancel)
  have "add_mset (ys ! ?i) (mset (take ?i ys)) = add_mset (ys ! ?i) (mset (take ?i ?xs'))"
    using Suc.prems(3) msw ty tx by simp
  then have m: "mset (take ?i ys) = mset (take ?i ?xs')"
    by (simp only: add_mset_add_mset_same_iff)
  have d: "drop ?i ys = drop ?i ?xs'"
  proof -
    have "drop ?i ys = ys ! ?i # drop (Suc ?i) ys" using iy by (simp add: Cons_nth_drop_Suc)
    moreover have "drop ?i ?xs' = ?xs' ! ?i # drop (Suc ?i) ?xs'"
      using Suc.prems(1) by (simp add: Cons_nth_drop_Suc del: drop_update_cancel)
    ultimately show ?thesis using at_i dr Suc.prems(4) by simp
  qed
  have "k < length ?xs'" using Suc.prems(1) by simp
  from Suc.IH[OF this _ m d] Suc.prems(2)
  obtain random where r: "shuffleLoop random k ?xs' = ys" by auto
  let ?r = "random(?i := j)"
  have "shuffleLoop ?r k ?xs' = shuffleLoop random k ?xs'"
    by (rule shuffleLoop_cong) simp
  moreover have "?r ?i mod (?i + 1) = j" using j by simp
  ultimately have "shuffleLoop ?r ?i xs = ys"
    using r by (simp add: Let_def)
  then show ?case by blast
qed

lemma shuffleArray_reaches:
  assumes "mset order = mset xs"
  shows "\<exists>random. shuffleArray random xs = order"
proof (cases xs)
  case Nil
  with assms show ?thesis by (simp add: shuffleArray_def)
next
  case (Cons a list)
  have len: "length order = length xs" using assms by (metis size_mset)
  have "\<exists>random. shuffleLoop random (length xs - 1) xs = order"
    using Cons assms len by (intro shuffleLoop_reaches) auto
  then show ?thesis by (simp add: shuffleArray_def)
qed

lemma ceilDiv_bounds:
  assumes "0 \<le> b" "0 < n"
  shows "0 \<le> ceilDiv b n \<and> ceilDiv b n \<le> b"
proof -
  define c where "c = - b"
  have c: "c \<le> 0" using assms by (simp add: c_def)
  have "c div n \<le> 0 div n" using assms c by (intro zdiv_mono1) auto
  then have up: "c div n \<le> 0" by simp
  have "c * n \<le> c" using assms c by (simp add: mult_le_cancel_left2)
  then have "(c * n) div n \<le> c div n" using assms by (intro zdiv_mono1) auto
  then have lo: "c \<le> c div n" using assms by simp
  from up lo show ?thesis by (simp add: ceilDiv_def c_def)
qed

lemma ceilDiv_least:
  assumes "0 < b"
  shows "a \<le> ceilDiv a b * b \<and> (ceilDiv a b - 1) * b < a"
proof -
  define q where "q = (- a) div b"
  define r where "r = (- a) mod b"
  have "- a = q * b + r" by (simp add: q_def r_def)
  moreover have "0 \<le> r" "r < b" using assms by (simp_all add: r_def)
  moreover have "ceilDiv a b = - q" by (simp add: ceilDiv_def q_def)
  ultimately show ?thesis by (simp add: algebra_simps)
qed

lemma foundWorkItem_effect:
  assumes "foundWorkItem ops sid wi w = (r, w')"
  shows "remainingNumOfJobs w' = remainingNumOfJobs w \<and> remainingBatchSize w' = remainingBatchSize w \<and>
         db w' = db w \<and>
         (case r of
            Inl e \<Rightarrow> workItems w' = workItems w
          | Inr u \<Rightarrow> \<exists>x. workItems w' = workItems w @ [x] \<and> workItem x = wi)"
  using assms
  by (auto simp: foundWorkItem_def bindIO_def dbRead_def logMsg_def pushWorkItem_def
      split: if_splits sum.splits prod.splits)

lemma pushWorkItems_effect:
  "pushWorkItems ops sid xs w = (r, w') \<Longrightarrow>
     remainingNumOfJobs w' = remainingNumOfJobs w \<and> remainingBatchSize w' = remainingBatchSize w \<and>
     db w' = db w \<and>
     length (workItems w') \<le> length (workItems w) + length xs \<and>
     (r = Inr () \<longrightarrow> length (workItems w') = length (workItems w) + length xs \<and>
        map workItem (workItems w') = map workItem (workItems w) @ xs)"
proof (induction xs arbitrary: w r w')
  case Nil
  then show ?case by (auto simp: ret_def)
next
  case (Cons wi rest)
  obtain r1 w1 where f: "foundWorkItem ops sid wi w = (r1, w1)" by (cases "foundWorkItem ops sid wi w")
  note e = foundWorkItem_effect[OF f]
  show ?case
  proof (cases r1)
    case (Inl err)
    with Cons.prems f have "r = Inl err" "w' = w1" by (auto simp: bindIO_def)
    with e Inl show ?thesis by auto
  next
    case (Inr u)
    with Cons.prems f have rest: "pushWorkItems ops sid rest w1 = (r, w')" by (auto simp: bindIO_def)
    from Cons.IH[OF rest] e Inr show ?thesis by auto
  qed
qed

text \<open>What one run of \<^verbatim>\<open>processJob\<close> that does not throw has done.\<close>

lemma processJob_success:
  assumes p: "processJob ops sid j w = (Inr (), w')"
  shows "\<exists>nxt d1. getNextWorkItems ops (db w) sid j (workSizeOf w) = Inr (nxt, d1) \<and>
           map workItem (workItems w') = map workItem (workItems w) @ fetchedItems nxt \<and>
           remainingNumOfJobs w' = remainingNumOfJobs w - 1 \<and>
           remainingBatchSize w' = remainingBatchSize w - int (length (fetchedItems nxt)) \<and>
           (fetchedItems nxt = [] \<longrightarrow>
              (\<exists>d2. recalculateCounts ops d1 j = Inr d2 \<and> db w' = d2))"
proof (cases "getNextWorkItems ops (db w) sid j (workSizeOf w)")
  case (Inl e)
  with p show ?thesis by (auto simp: processJob_def Let_def bindIO_def dbRun_def)
next
  case (Inr fetched)
  obtain nxt d1 where fetched: "fetched = (nxt, d1)" by (cases fetched)
  let ?w1 = "w\<lparr>db := d1\<rparr>"
  show ?thesis
  proof (cases "\<exists>x xs. nxt = Some (x # xs)")
    case True
    then obtain x xs where nxt: "nxt = Some (x # xs)" by blast
    obtain r1 w2 where push: "pushWorkItems ops sid (x # xs) ?w1 = (r1, w2)"
      by (cases "pushWorkItems ops sid (x # xs) ?w1")
    note pe = pushWorkItems_effect[OF push]
    from p Inr fetched nxt push pe show ?thesis
      by (auto simp: processJob_def Let_def bindIO_def dbRun_def dbWrite_def readjustCounts_def
          fetchedItems_def split: sum.splits)
  next
    case False
    then have "nxt = None \<or> nxt = Some []" by (cases nxt; cases "the nxt") auto
    with p Inr fetched show ?thesis
      by (auto simp: processJob_def Let_def bindIO_def dbRun_def dbWrite_def readjustCounts_def
          logMsg_def fetchedItems_def split: sum.splits)
  qed
qed

lemma processJob_effect:
  assumes c: "fetchContract ops" and b: "0 \<le> remainingBatchSize w" and n: "0 < remainingNumOfJobs w"
    and p: "processJob ops sid j w = (r, w')"
  shows "int (length (workItems w')) \<le> int (length (workItems w)) + remainingBatchSize w \<and>
         (r = Inr () \<longrightarrow>
            int (length (workItems w')) + remainingBatchSize w' =
              int (length (workItems w)) + remainingBatchSize w \<and>
            0 \<le> remainingBatchSize w')"
proof -
  let ?size = "ceilDiv (remainingBatchSize w) (remainingNumOfJobs w)"
  have ws: "workSizeOf w = ?size" using n by (simp add: workSizeOf_def)
  note cb = ceilDiv_bounds[OF b n]
  show ?thesis
  proof (cases "getNextWorkItems ops (db w) sid j ?size")
    case (Inl e)
    with p ws show ?thesis using b by (auto simp: processJob_def Let_def bindIO_def dbRun_def)
  next
    case (Inr fetched)
    obtain nxt d1 where fetched: "fetched = (nxt, d1)" by (cases fetched)
    let ?w1 = "w\<lparr>db := d1\<rparr>"
    show ?thesis
    proof (cases "\<exists>x xs. nxt = Some (x # xs)")
      case True
      then obtain x xs where nxt: "nxt = Some (x # xs)" by blast
      have len: "int (length (x # xs)) \<le> ?size"
        using c cb Inr fetched nxt unfolding fetchContract_def by blast
      obtain r1 w2 where push: "pushWorkItems ops sid (x # xs) ?w1 = (r1, w2)"
        by (cases "pushWorkItems ops sid (x # xs) ?w1")
      note pe = pushWorkItems_effect[OF push]
      from p ws Inr fetched nxt push pe len cb show ?thesis
        by (auto simp: processJob_def Let_def bindIO_def dbRun_def dbWrite_def readjustCounts_def
            fetchedItems_def split: sum.splits)
    next
      case False
      then have "nxt = None \<or> nxt = Some []" by (cases nxt; cases "the nxt") auto
      with p ws Inr fetched b show ?thesis
        by (auto simp: processJob_def Let_def bindIO_def dbRun_def dbWrite_def readjustCounts_def
            logMsg_def fetchedItems_def split: sum.splits)
    qed
  qed
qed

lemma transaction_scope:
  assumes "transaction ops callback w = (r, w')"
  shows "\<exists>r0 w0. callback w = (r0, w0) \<and> workItems w' = workItems w0 \<and>
           remainingNumOfJobs w' = remainingNumOfJobs w0 \<and>
           remainingBatchSize w' = remainingBatchSize w0 \<and> logs w' = logs w0 \<and>
           (r = r0 \<or> (\<exists>e. r = Inl e))"
  using assms by (auto simp: transaction_def split: sum.splits prod.splits)

lemma transaction_success:
  assumes "transaction ops callback w = (Inr x, w')"
  shows "\<exists>w0. callback w = (Inr x, w0) \<and> commitTransaction ops (db w0) = Inr (db w') \<and>
           workItems w' = workItems w0 \<and> remainingNumOfJobs w' = remainingNumOfJobs w0 \<and>
           remainingBatchSize w' = remainingBatchSize w0"
  using assms by (auto simp: transaction_def split: sum.splits prod.splits)

lemma transaction_processJob_success:
  assumes t: "transaction ops (processJob ops sid j) w = (Inr (), w')"
  shows "\<exists>nxt d1. getNextWorkItems ops (db w) sid j (workSizeOf w) = Inr (nxt, d1) \<and>
           map workItem (workItems w') = map workItem (workItems w) @ fetchedItems nxt \<and>
           remainingNumOfJobs w' = remainingNumOfJobs w - 1 \<and>
           remainingBatchSize w' = remainingBatchSize w - int (length (fetchedItems nxt)) \<and>
           (fetchedItems nxt = [] \<longrightarrow>
              (\<exists>d2. recalculateCounts ops d1 j = Inr d2 \<and> commitTransaction ops d2 = Inr (db w')))"
proof -
  from transaction_success[OF t] obtain w0 where
    p: "processJob ops sid j w = (Inr (), w0)" and
    cm: "commitTransaction ops (db w0) = Inr (db w')" and
    eq: "workItems w' = workItems w0" "remainingNumOfJobs w' = remainingNumOfJobs w0"
        "remainingBatchSize w' = remainingBatchSize w0" by blast
  from processJob_success[OF p] cm eq show ?thesis by auto
qed

lemma transaction_processJob_effect:
  assumes c: "fetchContract ops" and b: "0 \<le> remainingBatchSize w" and n: "0 < remainingNumOfJobs w"
    and p: "transaction ops (processJob ops sid j) w = (r, w')"
  shows "int (length (workItems w')) \<le> int (length (workItems w)) + remainingBatchSize w \<and>
         (r = Inr () \<longrightarrow>
            int (length (workItems w')) + remainingBatchSize w' =
              int (length (workItems w)) + remainingBatchSize w \<and>
            0 \<le> remainingBatchSize w')"
proof -
  from transaction_scope[OF p] obtain r0 w0 where
    cb: "processJob ops sid j w = (r0, w0)" and
    eq: "workItems w' = workItems w0" "remainingNumOfJobs w' = remainingNumOfJobs w0"
        "remainingBatchSize w' = remainingBatchSize w0" and
    rr: "r = r0 \<or> (\<exists>e. r = Inl e)" by blast
  from processJob_effect[OF c b n cb] eq rr show ?thesis by auto
qed

lemma forEachJob_bound:
  assumes c: "fetchContract ops"
  shows "0 \<le> remainingBatchSize w \<Longrightarrow> remainingNumOfJobs w = int (length jobs) \<Longrightarrow>
         forEachJob ops sid jobs w = (r, w') \<Longrightarrow>
         int (length (workItems w')) \<le> int (length (workItems w)) + remainingBatchSize w"
proof (induction jobs arbitrary: w r w')
  case Nil
  then show ?case by (simp add: ret_def)
next
  case (Cons j rest)
  obtain r1 w1 where t: "transaction ops (processJob ops sid j) w = (r1, w1)"
    by (cases "transaction ops (processJob ops sid j) w")
  have n: "0 < remainingNumOfJobs w" using Cons.prems(2) by simp
  note e = transaction_processJob_effect[OF c Cons.prems(1) n t]
  show ?case
  proof (cases r1)
    case (Inl err)
    with Cons.prems(3) t have "w' = w1" by (simp add: bindIO_def)
    with e show ?thesis by simp
  next
    case (Inr u)
    with Cons.prems(3) t have rest: "forEachJob ops sid rest w1 = (r, w')" by (simp add: bindIO_def)
    from t Inr have "transaction ops (processJob ops sid j) w = (Inr (), w1)" by simp
    from transaction_processJob_success[OF this] Cons.prems(2)
    have jobs: "remainingNumOfJobs w1 = int (length rest)" by auto
    from e Inr have inv: "0 \<le> remainingBatchSize w1"
      "int (length (workItems w1)) + remainingBatchSize w1 = int (length (workItems w)) + remainingBatchSize w"
      by auto
    from Cons.IH[OF inv(1) jobs rest] inv(2) show ?thesis by simp
  qed
qed

lemma iterations_work_size:
  "remainingNumOfJobs w = int (length jobs) \<Longrightarrow>
   list_all (\<lambda>s. 0 < remainingNumOfJobs s \<and>
                  workSizeOf s = ceilDiv (remainingBatchSize s) (remainingNumOfJobs s))
     (iterations ops sid jobs w)"
proof (induction jobs arbitrary: w)
  case Nil
  then show ?case by simp
next
  case (Cons j rest)
  have here: "0 < remainingNumOfJobs w \<and>
              workSizeOf w = ceilDiv (remainingBatchSize w) (remainingNumOfJobs w)"
    using Cons.prems by (simp add: workSizeOf_def)
  obtain r1 w1 where t: "transaction ops (processJob ops sid j) w = (r1, w1)"
    by (cases "transaction ops (processJob ops sid j) w")
  show ?case
  proof (cases r1)
    case (Inl err)
    with t here show ?thesis by simp
  next
    case (Inr u)
    with t have "transaction ops (processJob ops sid j) w = (Inr (), w1)" by simp
    from transaction_processJob_success[OF this] Cons.prems
    have "remainingNumOfJobs w1 = int (length rest)" by auto
    from Cons.IH[OF this] t Inr here show ?thesis by simp
  qed
qed

lemma getWorkItemsFromDatabase_bound:
  assumes c: "fetchContract ops"
  shows "length (fst (getWorkItemsFromDatabase ops random sid batchSize w)) \<le> batchSize"
proof -
  let ?scope = "\<lparr>db = db w, logs = logs w, workItems = [], remainingNumOfJobs = 0, remainingBatchSize = 0\<rparr>"
  obtain r1 s1 where t: "getWorkItemsFromDatabaseTry ops random sid batchSize ?scope = (r1, s1)"
    by (cases "getWorkItemsFromDatabaseTry ops random sid batchSize ?scope")
  have "length (workItems s1) \<le> batchSize"
  proof (cases "getNextJobIds ops (db w) sid batchSize")
    case (Inl e)
    with t show ?thesis by (auto simp: getWorkItemsFromDatabaseTry_def bindIO_def dbRead_def)
  next
    case (Inr jobIds)
    let ?loop = "?scope\<lparr>remainingNumOfJobs := int (length jobIds), remainingBatchSize := int batchSize\<rparr>"
    from t Inr have f: "forEachJob ops sid (shuffleArray random jobIds) ?loop = (r1, s1)"
      by (auto simp: getWorkItemsFromDatabaseTry_def bindIO_def dbRead_def initCounts_def)
    from forEachJob_bound[OF c _ _ f] show ?thesis by (simp add: length_shuffleArray)
  qed
  moreover have "fst (getWorkItemsFromDatabase ops random sid batchSize w) = workItems s1"
    using t by (auto simp: getWorkItemsFromDatabase_def tryCatch_def logMsg_def split: sum.splits)
  ultimately show ?thesis by simp
qed

lemma foundWorkItem_succeeds:
  assumes "QUERY_CMR_SERVICE_REGEX_test ops (itemServiceID x) \<longrightarrow>
             (\<exists>n. calculateQueryCmrLimit ops (db w) x = Inr n)"
  shows "\<exists>w'. foundWorkItem ops sid x w = (Inr (), w')"
  using assms
  by (auto simp: foundWorkItem_def bindIO_def dbRead_def logMsg_def pushWorkItem_def)

lemma pushWorkItems_succeeds:
  "\<forall>x \<in> set xs. QUERY_CMR_SERVICE_REGEX_test ops (itemServiceID x) \<longrightarrow>
             (\<exists>n. calculateQueryCmrLimit ops (db w) x = Inr n) \<Longrightarrow>
   \<exists>w'. pushWorkItems ops sid xs w = (Inr (), w')"
proof (induction xs arbitrary: w)
  case Nil
  then show ?case by (simp add: ret_def)
next
  case (Cons x xs)
  then obtain w1 where f: "foundWorkItem ops sid x w = (Inr (), w1)"
    using foundWorkItem_succeeds[of ops x w sid] by auto
  from foundWorkItem_effect[OF f] have "db w1 = db w" by simp
  with Cons.prems have "\<forall>x \<in> set xs. QUERY_CMR_SERVICE_REGEX_test ops (itemServiceID x) \<longrightarrow>
             (\<exists>n. calculateQueryCmrLimit ops (db w1) x = Inr n)" by simp
  from Cons.IH[OF this] f show ?case by (simp add: bindIO_def)
qed

text \<open>A job whose fetch returns items: the iteration completes and the loop goes on.\<close>

lemma forEachJob_items:
  assumes n: "0 < remainingNumOfJobs s"
    and fetch: "getNextWorkItems ops (db s) sid j
                  (ceilDiv (remainingBatchSize s) (remainingNumOfJobs s)) = Inr (Some xs, d1)"
    and ne: "xs \<noteq> []"
    and cmr: "\<forall>x \<in> set xs. QUERY_CMR_SERVICE_REGEX_test ops (itemServiceID x) \<longrightarrow>
                (\<exists>n. calculateQueryCmrLimit ops d1 x = Inr n)"
    and inc: "incrementRunningAndDecrementReadyCounts ops d1 j sid (Some (int (length xs))) = Inr d2"
    and commit: "commitTransaction ops d2 = Inr d3"
  shows "\<exists>s'. forEachJob ops sid (j # rest) s = forEachJob ops sid rest s' \<and>
           db s' = d3 \<and>
           map workItem (workItems s') = map workItem (workItems s) @ xs \<and>
           remainingNumOfJobs s' = remainingNumOfJobs s - 1 \<and>
           remainingBatchSize s' = remainingBatchSize s - int (length xs)"
proof -
  have ws: "workSizeOf s = ceilDiv (remainingBatchSize s) (remainingNumOfJobs s)"
    using n by (simp add: workSizeOf_def)
  obtain x xs' where xs: "xs = x # xs'" using ne by (cases xs) auto
  let ?s1 = "s\<lparr>db := d1\<rparr>"
  from pushWorkItems_succeeds[of xs ops ?s1 sid] cmr
  obtain s2 where push: "pushWorkItems ops sid xs ?s1 = (Inr (), s2)" by auto
  from pushWorkItems_effect[OF push]
  have e: "remainingNumOfJobs s2 = remainingNumOfJobs s" "remainingBatchSize s2 = remainingBatchSize s"
    "db s2 = d1" "map workItem (workItems s2) = map workItem (workItems s) @ xs"
    by simp_all
  let ?s3 = "s2\<lparr>db := d2, remainingNumOfJobs := remainingNumOfJobs s - 1,
                 remainingBatchSize := remainingBatchSize s - int (length xs)\<rparr>"
  have p: "processJob ops sid j s = (Inr (), ?s3)"
    using ws fetch push inc e xs
    by (simp add: processJob_def Let_def bindIO_def dbRun_def dbWrite_def readjustCounts_def
        fetchedItems_def)
  have t: "transaction ops (processJob ops sid j) s = (Inr (), ?s3\<lparr>db := d3\<rparr>)"
    using p commit by (simp add: transaction_def)
  have "forEachJob ops sid (j # rest) s = forEachJob ops sid rest (?s3\<lparr>db := d3\<rparr>)"
    using t by (simp add: bindIO_def)
  moreover have "db (?s3\<lparr>db := d3\<rparr>) = d3"
    "map workItem (workItems (?s3\<lparr>db := d3\<rparr>)) = map workItem (workItems s) @ xs"
    "remainingNumOfJobs (?s3\<lparr>db := d3\<rparr>) = remainingNumOfJobs s - 1"
    "remainingBatchSize (?s3\<lparr>db := d3\<rparr>) = remainingBatchSize s - int (length xs)"
    using e by simp_all
  ultimately show ?thesis by blast
qed

text \<open>
  A job whose fetch returns nothing: the counts of the job are recalculated in the
  iteration's transaction, and the loop goes on with the next job.
\<close>

lemma forEachJob_nothing:
  assumes n: "0 < remainingNumOfJobs s"
    and fetch: "getNextWorkItems ops (db s) sid j
                  (ceilDiv (remainingBatchSize s) (remainingNumOfJobs s)) = Inr (nxt, d1)"
    and none: "fetchedItems nxt = []"
    and recalc: "recalculateCounts ops d1 j = Inr d2"
    and commit: "commitTransaction ops d2 = Inr d3"
  shows "forEachJob ops sid (j # rest) s =
           forEachJob ops sid rest
             (s\<lparr>logs := logs s @
                  [logString Warn (''user_work is out of sync for job '' @ j @
                     '', could not find ready work item''),
                   logString Warn (''recalculating ready and running counts for job '' @ j)],
                remainingNumOfJobs := remainingNumOfJobs s - 1,
                db := d3\<rparr>)"
proof -
  have ws: "workSizeOf s = ceilDiv (remainingBatchSize s) (remainingNumOfJobs s)"
    using n by (simp add: workSizeOf_def)
  from none have nxt: "nxt = None \<or> nxt = Some []" by (cases nxt) (auto simp: fetchedItems_def)
  let ?s' = "s\<lparr>db := d2,
                logs := logs s @
                  [logString Warn (''user_work is out of sync for job '' @ j @
                     '', could not find ready work item''),
                   logString Warn (''recalculating ready and running counts for job '' @ j)],
                remainingNumOfJobs := remainingNumOfJobs s - 1\<rparr>"
  have p: "processJob ops sid j s = (Inr (), ?s')"
    using ws fetch nxt recalc
    by (auto simp: processJob_def Let_def bindIO_def dbRun_def dbWrite_def readjustCounts_def
        logMsg_def fetchedItems_def)
  have "transaction ops (processJob ops sid j) s = (Inr (), ?s'\<lparr>db := d3\<rparr>)"
    using p commit by (simp add: transaction_def)
  then show ?thesis by (simp add: bindIO_def)
qed

lemma getWorkItemsFromDatabase_loop:
  assumes "getNextJobIds ops (db w) sid batchSize = Inr jobIds"
  shows "fst (getWorkItemsFromDatabase ops random sid batchSize w) =
           workItems (snd (forEachJob ops sid (shuffleArray random jobIds)
             \<lparr>db = db w, logs = logs w, workItems = [],
              remainingNumOfJobs = int (length jobIds), remainingBatchSize = int batchSize\<rparr>))"
  using assms
  by (auto simp: getWorkItemsFromDatabase_def getWorkItemsFromDatabaseTry_def tryCatch_def
      bindIO_def dbRead_def initCounts_def logMsg_def split: sum.splits prod.splits)

lemma getWorkItemsFromDatabase_no_jobs:
  assumes "getNextJobIds ops (db w) sid batchSize = Inl err"
  shows "getWorkItemsFromDatabase ops random sid batchSize w =
           ([], \<lparr>db = db w,
                 logs = logs w @ [logString Err (''Error getting works from database: '' @ exnMessage err)]\<rparr>)"
  using assms
  by (simp add: getWorkItemsFromDatabase_def getWorkItemsFromDatabaseTry_def tryCatch_def
      bindIO_def dbRead_def logMsg_def)


text \<open>
  Claim C3. For every store, random draws, service and batch size, the batch path
  works as follows. (1) The order in which the loop visits the job IDs is the one the
  shuffle makes of the fetched list: a permutation of it that the draws determine, and
  every permutation of it is the result of some draws. (2) \<open>ceilDiv\<close> is the ceiling of
  the quotient. (3) When the job IDs cannot be fetched the result is empty; otherwise
  the result is the list that the loop has accumulated when it ends, the loop starts
  with the number of fetched jobs and the batch size as its remaining counts, and at
  the start of every iteration the number of remaining jobs is positive and the work
  size is the ceiling of the remaining batch size by the number of remaining jobs (the
  other branch of the conditional is never taken). (4) An iteration whose fetch with
  that work size returns items, and whose updates and commit succeed, appends the
  items to the result in their order, takes one from the number of remaining jobs and
  the number of items from the remaining batch size, and the loop goes on with the
  next job. (5) An iteration whose fetch returns nothing logs two warnings and
  recalculates the counts of the job in its transaction; the result and the remaining
  batch size stay as they are, the number of remaining jobs is one less, and the loop
  goes on with the next job. (6) Conversely, every iteration that completes has done
  one of the two; an iteration runs in a transaction of its own, and only a throw ends
  the loop early. (7) When the store returns at most as many items as it is asked
  for, the result never has more than \<open>batchSize\<close> items.
\<close>

theorem batch_path_allotment:
  "mset (shuffleArray random jobIds) = mset jobIds \<and>
   (mset order = mset jobIds \<longrightarrow> (\<exists>draws. shuffleArray draws jobIds = order)) \<and>
   (0 < b \<longrightarrow> a \<le> ceilDiv a b * b \<and> (ceilDiv a b - 1) * b < a) \<and>
   (getNextJobIds ops (db w) sid batchSize = Inl err \<longrightarrow>
      fst (getWorkItemsFromDatabase ops random sid batchSize w) = []) \<and>
   (getNextJobIds ops (db w) sid batchSize = Inr jobIds \<longrightarrow>
      fst (getWorkItemsFromDatabase ops random sid batchSize w) =
        workItems (snd (forEachJob ops sid (shuffleArray random jobIds)
          \<lparr>db = db w, logs = logs w, workItems = [],
           remainingNumOfJobs = int (length jobIds), remainingBatchSize = int batchSize\<rparr>)) \<and>
      list_all (\<lambda>s. 0 < remainingNumOfJobs s \<and>
                     workSizeOf s = ceilDiv (remainingBatchSize s) (remainingNumOfJobs s))
        (iterations ops sid (shuffleArray random jobIds)
           \<lparr>db = db w, logs = logs w, workItems = [],
            remainingNumOfJobs = int (length jobIds), remainingBatchSize = int batchSize\<rparr>)) \<and>
   (0 < remainingNumOfJobs s \<and>
    getNextWorkItems ops (db s) sid j (ceilDiv (remainingBatchSize s) (remainingNumOfJobs s)) =
      Inr (Some xs, d1) \<and>
    xs \<noteq> [] \<and>
    (\<forall>x \<in> set xs. QUERY_CMR_SERVICE_REGEX_test ops (itemServiceID x) \<longrightarrow>
                (\<exists>n. calculateQueryCmrLimit ops d1 x = Inr n)) \<and>
    incrementRunningAndDecrementReadyCounts ops d1 j sid (Some (int (length xs))) = Inr d2 \<and>
    commitTransaction ops d2 = Inr d3 \<longrightarrow>
      (\<exists>s'. forEachJob ops sid (j # rest) s = forEachJob ops sid rest s' \<and>
            db s' = d3 \<and>
            map workItem (workItems s') = map workItem (workItems s) @ xs \<and>
            remainingNumOfJobs s' = remainingNumOfJobs s - 1 \<and>
            remainingBatchSize s' = remainingBatchSize s - int (length xs))) \<and>
   (0 < remainingNumOfJobs s \<and>
    getNextWorkItems ops (db s) sid j (ceilDiv (remainingBatchSize s) (remainingNumOfJobs s)) =
      Inr (nxt, d1) \<and>
    fetchedItems nxt = [] \<and>
    recalculateCounts ops d1 j = Inr d2 \<and> commitTransaction ops d2 = Inr d3 \<longrightarrow>
      forEachJob ops sid (j # rest) s =
        forEachJob ops sid rest
          (s\<lparr>logs := logs s @
               [logString Warn (''user_work is out of sync for job '' @ j @
                  '', could not find ready work item''),
                logString Warn (''recalculating ready and running counts for job '' @ j)],
             remainingNumOfJobs := remainingNumOfJobs s - 1,
             db := d3\<rparr>)) \<and>
   (\<forall>s'. transaction ops (processJob ops sid j) s = (Inr (), s') \<longrightarrow>
      (\<exists>nxt d1. getNextWorkItems ops (db s) sid j (workSizeOf s) = Inr (nxt, d1) \<and>
         map workItem (workItems s') = map workItem (workItems s) @ fetchedItems nxt \<and>
         remainingNumOfJobs s' = remainingNumOfJobs s - 1 \<and>
         remainingBatchSize s' = remainingBatchSize s - int (length (fetchedItems nxt)) \<and>
         (fetchedItems nxt = [] \<longrightarrow>
            (\<exists>d2. recalculateCounts ops d1 j = Inr d2 \<and> commitTransaction ops d2 = Inr (db s'))))) \<and>
   forEachJob ops sid (j # rest) s =
      (case transaction ops (processJob ops sid j) s of
         (Inl e, s') \<Rightarrow> (Inl e, s')
       | (Inr u, s') \<Rightarrow> forEachJob ops sid rest s') \<and>
   (fetchContract ops \<longrightarrow>
      length (fst (getWorkItemsFromDatabase ops random sid batchSize w)) \<le> batchSize)"
proof -
  let ?start = "\<lparr>db = db w, logs = logs w, workItems = [],
           remainingNumOfJobs = int (length jobIds), remainingBatchSize = int batchSize\<rparr>"
  have loop: "list_all (\<lambda>s. 0 < remainingNumOfJobs s \<and>
                     workSizeOf s = ceilDiv (remainingBatchSize s) (remainingNumOfJobs s))
        (iterations ops sid (shuffleArray random jobIds) ?start)"
    by (rule iterations_work_size) (simp add: length_shuffleArray)
  have none: "getNextJobIds ops (db w) sid batchSize = Inl err \<longrightarrow>
      fst (getWorkItemsFromDatabase ops random sid batchSize w) = []"
    using getWorkItemsFromDatabase_no_jobs[of ops w sid batchSize err random] by simp
  have step: "forEachJob ops sid (j # rest) s =
      (case transaction ops (processJob ops sid j) s of
         (Inl e, s') \<Rightarrow> (Inl e, s')
       | (Inr u, s') \<Rightarrow> forEachJob ops sid rest s')"
    by (simp add: bindIO_def)
  from mset_shuffleArray[of random jobIds] shuffleArray_reaches[of order jobIds] ceilDiv_least[of b a]
    none getWorkItemsFromDatabase_loop[of ops w sid batchSize jobIds random] loop
    forEachJob_items[of s ops sid j xs d1 d2 d3 rest]
    forEachJob_nothing[of s ops sid j nxt d1 d2 d3 rest]
    transaction_processJob_success[of ops sid j s] step
    getWorkItemsFromDatabase_bound[of ops random sid batchSize w]
  show ?thesis by blast
qed


lemma claimRows_length: "length (fst (claimRows n s j rs)) \<le> n"
  by (induction n s j rs rule: claimRows.induct) (auto split: prod.splits)

lemma memOps_fetchContract: "fetchContract memOps"
  unfolding fetchContract_def
proof (intro allI impI)
  fix tx serviceID jobId workSize xs tx'
  assume a: "0 \<le> workSize \<and> getNextWorkItems memOps tx serviceID jobId workSize = Inr (Some xs, tx')"
  then have "xs = fst (claimRows (nat workSize) serviceID jobId (workItemRows tx))"
    by (auto simp: memOps_def failIf_def split: if_splits prod.splits)
  then have "length xs \<le> nat workSize" by (simp add: claimRows_length)
  moreover from a have "0 \<le> workSize" by simp
  ultimately show "int (length xs) \<le> workSize" by linarith
qed

lemma desync_fetch:
  "getNextWorkItems memOps (db desyncScope) ''svc'' ''jobA''
     (ceilDiv (remainingBatchSize desyncScope) (remainingNumOfJobs desyncScope)) =
   Inr (Some [], desyncDb)"
  by (simp add: memOps_def failIf_def desyncScope_def desyncDb_def ceilDiv_def mkItem_def
      eval_nat_numeral)

lemma desync_recalculate: "recalculateCounts memOps desyncDb ''jobA'' = Inr resyncedDb"
  by (simp add: memOps_def failIf_def desyncDb_def resyncedDb_def countRows_def mkItem_def
      mkUserWork_def)

lemma desync_commit: "commitTransaction memOps resyncedDb = Inr resyncedDb"
  by (simp add: memOps_def failIf_def desyncDb_def resyncedDb_def)

lemma desync_run:
  "map (\<lambda>x. itemID (workItem x))
     (fst (getWorkItemsFromDatabase memOps (\<lambda>i. 1) ''svc'' 2 \<lparr>db = desyncDb, logs = []\<rparr>)) = [2, 3]"
  by (simp add: getWorkItemsFromDatabase_def getWorkItemsFromDatabaseTry_def tryCatch_def
        bindIO_def dbRead_def dbRun_def dbWrite_def initCounts_def transaction_def processJob_def
        workSizeOf_def ceilDiv_def readjustCounts_def fetchedItems_def foundWorkItem_def
        pushWorkItem_def ret_def logMsg_def shuffleArray_def Let_def
        memOps_def failIf_def desyncDb_def mkItem_def mkUserWork_def countRows_def eval_nat_numeral)

lemma demo_run:
  "map (\<lambda>x. itemID (workItem x))
     (fst (getWorkItemsFromDatabase memOps (\<lambda>i. 0) ''svc'' 3 \<lparr>db = demoDb, logs = []\<rparr>)) = [2, 3, 1]"
  by (simp add: getWorkItemsFromDatabase_def getWorkItemsFromDatabaseTry_def tryCatch_def
        bindIO_def dbRead_def dbRun_def dbWrite_def initCounts_def transaction_def processJob_def
        workSizeOf_def ceilDiv_def readjustCounts_def fetchedItems_def foundWorkItem_def
        pushWorkItem_def ret_def logMsg_def shuffleArray_def Let_def
        memOps_def failIf_def demoDb_def mkItem_def mkUserWork_def eval_nat_numeral)

theorem batch_path_allotment_witness:
  "map (\<lambda>x. itemID (workItem x))
     (fst (getWorkItemsFromDatabase memOps (\<lambda>i. 0) ''svc'' 3 \<lparr>db = demoDb, logs = []\<rparr>)) = [2, 3, 1] \<and>
   length (fst (getWorkItemsFromDatabase memOps (\<lambda>i. 0) ''svc'' 3 \<lparr>db = demoDb, logs = []\<rparr>)) \<le> 3 \<and>
   list_all (\<lambda>s. 0 < remainingNumOfJobs s \<and>
                  workSizeOf s = ceilDiv (remainingBatchSize s) (remainingNumOfJobs s))
     (iterations memOps ''svc'' (shuffleArray (\<lambda>i. 0) [''jobA'', ''jobB''])
        \<lparr>db = demoDb, logs = [], workItems = [], remainingNumOfJobs = 2, remainingBatchSize = 3\<rparr>) \<and>
   (\<exists>draws. shuffleArray draws [''jobA'', ''jobB''] = [''jobB'', ''jobA'']) \<and>
   (\<exists>draws. shuffleArray draws [''jobA'', ''jobB''] = [''jobA'', ''jobB'']) \<and>
   forEachJob memOps ''svc'' [''jobA'', ''jobB''] desyncScope =
     forEachJob memOps ''svc'' [''jobB'']
       (desyncScope\<lparr>logs :=
          [logString Warn ''user_work is out of sync for job jobA, could not find ready work item'',
           logString Warn ''recalculating ready and running counts for job jobA''],
          remainingNumOfJobs := 1, db := resyncedDb\<rparr>) \<and>
   map (\<lambda>x. itemID (workItem x))
     (fst (getWorkItemsFromDatabase memOps (\<lambda>i. 1) ''svc'' 2 \<lparr>db = desyncDb, logs = []\<rparr>)) = [2, 3]"
proof -
  have ids: "getNextJobIds memOps (db \<lparr>db = demoDb, logs = []\<rparr>) ''svc'' 3 = Inr [''jobA'', ''jobB'']"
    by (simp add: memOps_def failIf_def demoDb_def mkUserWork_def)
  note demo = batch_path_allotment[of "\<lambda>i. 0" "[''jobA'', ''jobB'']" "[''jobB'', ''jobA'']" _ _ memOps
      "\<lparr>db = demoDb, logs = []\<rparr>" "''svc''" 3]
  have bound: "length (fst (getWorkItemsFromDatabase memOps (\<lambda>i. 0) ''svc'' 3 \<lparr>db = demoDb, logs = []\<rparr>)) \<le> 3"
    using demo memOps_fetchContract by blast
  have inv: "list_all (\<lambda>s. 0 < remainingNumOfJobs s \<and>
                  workSizeOf s = ceilDiv (remainingBatchSize s) (remainingNumOfJobs s))
     (iterations memOps ''svc'' (shuffleArray (\<lambda>i. 0) [''jobA'', ''jobB''])
        \<lparr>db = demoDb, logs = [], workItems = [], remainingNumOfJobs = 2, remainingBatchSize = 3\<rparr>)"
    using demo ids by simp
  have swapped: "\<exists>draws. shuffleArray draws [''jobA'', ''jobB''] = [''jobB'', ''jobA'']"
    using demo by simp
  have same: "\<exists>draws. shuffleArray draws [''jobA'', ''jobB''] = [''jobA'', ''jobB'']"
    using batch_path_allotment[where jobIds = "[''jobA'', ''jobB'']" and order = "[''jobA'', ''jobB'']",
        THEN conjunct2, THEN conjunct1]
    by simp
  have scope: "0 < remainingNumOfJobs desyncScope" "fetchedItems (Some []) = []"
    "logs desyncScope = []" "remainingNumOfJobs desyncScope - 1 = 1"
    by (simp_all add: desyncScope_def fetchedItems_def)
  have desync: "forEachJob memOps ''svc'' [''jobA'', ''jobB''] desyncScope =
     forEachJob memOps ''svc'' [''jobB'']
       (desyncScope\<lparr>logs :=
          [logString Warn ''user_work is out of sync for job jobA, could not find ready work item'',
           logString Warn ''recalculating ready and running counts for job jobA''],
          remainingNumOfJobs := 1, db := resyncedDb\<rparr>)"
    using batch_path_allotment[where ops = memOps and sid = "''svc''" and s = desyncScope
        and j = "''jobA''" and ?d1.0 = desyncDb and ?d2.0 = resyncedDb and ?d3.0 = resyncedDb
        and rest = "[''jobB'']" and nxt = "Some []",
        THEN conjunct2, THEN conjunct2, THEN conjunct2, THEN conjunct2, THEN conjunct2,
        THEN conjunct2, THEN conjunct1]
      scope desync_fetch desync_recalculate desync_commit
    by simp
  from demo_run bound inv swapped same desync desync_run show ?thesis by simp
qed

section \<open>Getting work from the queue\<close>

lemma transaction_rollback:
  "transaction ops callback w = (Inl e, w') \<Longrightarrow> db w' = db w"
  by (auto simp: transaction_def split: sum.splits prod.splits)

lemma transaction_queues:
  fixes w :: "('db, 'q) queueWorld"
  assumes "transaction ops (checkCanceledAndRun ops item) w = (r, w')"
  shows "queues w' = queues w \<and> workSchedulerQueue w' = workSchedulerQueue w \<and>
         (\<exists>extra. logs w' = logs w @ extra)"
  using assms
  by (auto simp: transaction_def checkCanceledAndRun_def bindIO_def dbRead_def dbWrite_def logMsg_def
      split: sum.splits prod.splits if_splits)

lemma handleQueueItem_to_transaction:
  assumes del: "deleteMessage qops (queues w1 (getQueueUrlForService env sid)) (receipt qi) = Inr q'"
    and parse: "JSON_parse_WorkItemData env (body qi) = Inr item"
  shows "handleQueueItem env qops ops sid (Some qi) w1 =
           tryCatch
             (bindIO (transaction ops (checkCanceledAndRun ops item)) (\<lambda>_. ret (Some item)))
             (\<lambda>err. bindIO (logMsg Err (''Error updating work item status to running: '' @ exnMessage err))
                       (\<lambda>_. ret None))
             (afterDelete (getQueueUrlForService env sid) qi q' w1)"
  using del parse
  by (simp add: handleQueueItem_def Let_def bindIO_def logMsg_def onQueue_def afterDelete_def)

text \<open>
  Claim C10. Let the polling of \<^verbatim>\<open>getWorkFromQueue\<close> have found the message \<open>qi\<close>, its
  deletion have left the queue as \<open>q'\<close> and its body parse as \<open>item\<close>. If the
  transaction that checks the item's status and sets it to RUNNING then throws \<open>err\<close>
  (a query or the commit), \<^verbatim>\<open>getWorkFromQueue\<close> returns \<^verbatim>\<open>null\<close> and does not throw; the
  last line it logs is the error line with the message of \<open>err\<close>; the service's queue
  is as the deletion left it and the scheduler's queue as the polling left it, so the
  item is not put back; and the database is as before the transaction.
\<close>

theorem queue_transaction_failure:
  "pollQueue env qops sid w0 = (Inr (Some qi), w1) \<and>
   deleteMessage qops (queues w1 (getQueueUrlForService env sid)) (receipt qi) = Inr q' \<and>
   JSON_parse_WorkItemData env (body qi) = Inr item \<and>
   fst (transaction ops (checkCanceledAndRun ops item)
          (afterDelete (getQueueUrlForService env sid) qi q' w1)) = Inl err \<longrightarrow>
     fst (getWorkFromQueue env qops ops sid w0) = Inr None \<and>
     last (logs (snd (getWorkFromQueue env qops ops sid w0))) =
       logString Err (''Error updating work item status to running: '' @ exnMessage err) \<and>
     queues (snd (getWorkFromQueue env qops ops sid w0)) =
       (queues w1)(getQueueUrlForService env sid := q') \<and>
     workSchedulerQueue (snd (getWorkFromQueue env qops ops sid w0)) = workSchedulerQueue w1 \<and>
     db (snd (getWorkFromQueue env qops ops sid w0)) = db w1"
proof (intro impI, elim conjE)
  assume poll: "pollQueue env qops sid w0 = (Inr (Some qi), w1)"
    and del: "deleteMessage qops (queues w1 (getQueueUrlForService env sid)) (receipt qi) = Inr q'"
    and parse: "JSON_parse_WorkItemData env (body qi) = Inr item"
    and fail: "fst (transaction ops (checkCanceledAndRun ops item)
                      (afterDelete (getQueueUrlForService env sid) qi q' w1)) = Inl err"
  let ?w2 = "afterDelete (getQueueUrlForService env sid) qi q' w1"
  obtain r3 w3 where t: "transaction ops (checkCanceledAndRun ops item) ?w2 = (r3, w3)"
    by (cases "transaction ops (checkCanceledAndRun ops item) ?w2")
  with fail have r3: "r3 = Inl err" by simp
  from transaction_rollback[OF t[unfolded r3]] have d: "db w3 = db w1" by (simp add: afterDelete_def)
  from transaction_queues[OF t] have q: "queues w3 = (queues w1)(getQueueUrlForService env sid := q')"
    "workSchedulerQueue w3 = workSchedulerQueue w1" by (simp_all add: afterDelete_def)
  have "getWorkFromQueue env qops ops sid w0 =
          (Inr None, w3\<lparr>logs := logs w3 @
             [logString Err (''Error updating work item status to running: '' @ exnMessage err)]\<rparr>)"
    using poll t r3
    by (simp add: getWorkFromQueue_def bindIO_def handleQueueItem_to_transaction[OF del parse]
        tryCatch_def logMsg_def ret_def)
  with d q show "fst (getWorkFromQueue env qops ops sid w0) = Inr None \<and>
     last (logs (snd (getWorkFromQueue env qops ops sid w0))) =
       logString Err (''Error updating work item status to running: '' @ exnMessage err) \<and>
     queues (snd (getWorkFromQueue env qops ops sid w0)) =
       (queues w1)(getQueueUrlForService env sid := q') \<and>
     workSchedulerQueue (snd (getWorkFromQueue env qops ops sid w0)) = workSchedulerQueue w1 \<and>
     db (snd (getWorkFromQueue env qops ops sid w0)) = db w1" by simp
qed

lemma pollQueue_item7:
  "\<exists>w1. pollQueue svcEnv memQueue ''svc'' (queueWorldOf d [item7Message]) = (Inr (Some item7Message), w1) \<and>
         queues w1 ''queue://svc'' = [item7Message] \<and> db w1 = d \<and> workSchedulerQueue w1 = []"
  by (simp add: pollQueue_def svcEnv_def memQueue_def queueWorldOf_def Let_def bindIO_def logMsg_def
      onQueue_def ret_def)

theorem queue_transaction_failure_witness:
  "fst (getWorkFromQueue svcEnv memQueue memOps ''svc''
          (queueWorldOf (item7Db READY [''updateWorkItemStatuses'']) [item7Message])) = Inr None \<and>
   last (logs (snd (getWorkFromQueue svcEnv memQueue memOps ''svc''
          (queueWorldOf (item7Db READY [''updateWorkItemStatuses'']) [item7Message])))) =
     logString Err ''Error updating work item status to running: updateWorkItemStatuses failed'' \<and>
   queues (snd (getWorkFromQueue svcEnv memQueue memOps ''svc''
          (queueWorldOf (item7Db READY [''updateWorkItemStatuses'']) [item7Message]))) ''queue://svc'' = [] \<and>
   db (snd (getWorkFromQueue svcEnv memQueue memOps ''svc''
          (queueWorldOf (item7Db READY [''updateWorkItemStatuses'']) [item7Message]))) =
     item7Db READY [''updateWorkItemStatuses'']"
proof -
  let ?d = "item7Db READY [''updateWorkItemStatuses'']"
  let ?item = "\<lparr>workItem = mkItem 7 ''jobA'', maxCmrGranules = None\<rparr>"
  from pollQueue_item7[of ?d] obtain w1 where
    poll: "pollQueue svcEnv memQueue ''svc'' (queueWorldOf ?d [item7Message]) = (Inr (Some item7Message), w1)"
    and q1: "queues w1 ''queue://svc'' = [item7Message]" and d1: "db w1 = ?d"
    and s1: "workSchedulerQueue w1 = []" by blast
  have url: "getQueueUrlForService svcEnv ''svc'' = ''queue://svc''" by (simp add: svcEnv_def)
  have del: "deleteMessage memQueue (queues w1 (getQueueUrlForService svcEnv ''svc'')) (receipt item7Message) = Inr []"
    by (simp add: url q1 memQueue_def item7Message_def)
  have parse: "JSON_parse_WorkItemData svcEnv (body item7Message) = Inr ?item"
    by (simp add: svcEnv_def item7Message_def)
  have fail: "fst (transaction memOps (checkCanceledAndRun memOps ?item)
                     (afterDelete (getQueueUrlForService svcEnv ''svc'') item7Message [] w1)) =
              Inl (Error ''updateWorkItemStatuses failed'')"
    by (simp add: transaction_def checkCanceledAndRun_def bindIO_def dbRead_def dbWrite_def logMsg_def
        afterDelete_def d1 memOps_def failIf_def item7Db_def mkItem_def)
  from queue_transaction_failure[of svcEnv memQueue "''svc''" "queueWorldOf ?d [item7Message]"
      item7Message w1 "[]" ?item memOps "Error ''updateWorkItemStatuses failed''"]
    poll del parse fail
  show ?thesis by (simp add: url d1)
qed

text \<open>
  What the second part of \<^verbatim>\<open>getWorkFromQueue\<close> does when the transaction completes:
  the item is returned, whether its status was CANCELED (nothing is written) or not
  (it is set to RUNNING first).
\<close>

lemma queue_item_canceled:
  assumes poll: "pollQueue env qops sid w0 = (Inr (Some qi), w1)"
    and del: "deleteMessage qops (queues w1 (getQueueUrlForService env sid)) (receipt qi) = Inr q'"
    and parse: "JSON_parse_WorkItemData env (body qi) = Inr item"
    and cur: "getWorkItemStatus ops (db w1) (itemID (workItem item)) = Inr (Some CANCELED)"
    and com: "commitTransaction ops (db w1) = Inr d"
  shows "fst (getWorkFromQueue env qops ops sid w0) = Inr (Some item) \<and>
         db (snd (getWorkFromQueue env qops ops sid w0)) = d"
  using poll cur com
  by (simp add: getWorkFromQueue_def bindIO_def handleQueueItem_to_transaction[OF del parse]
      tryCatch_def transaction_def checkCanceledAndRun_def dbRead_def logMsg_def ret_def afterDelete_def)

lemma queue_item_not_canceled:
  assumes poll: "pollQueue env qops sid w0 = (Inr (Some qi), w1)"
    and del: "deleteMessage qops (queues w1 (getQueueUrlForService env sid)) (receipt qi) = Inr q'"
    and parse: "JSON_parse_WorkItemData env (body qi) = Inr item"
    and cur: "getWorkItemStatus ops (db w1) (itemID (workItem item)) = Inr st" "st \<noteq> Some CANCELED"
    and upd: "updateWorkItemStatuses ops (db w1) [itemID (workItem item)] RUNNING = Inr d1"
    and com: "commitTransaction ops d1 = Inr d"
  shows "fst (getWorkFromQueue env qops ops sid w0) = Inr (Some item) \<and>
         db (snd (getWorkFromQueue env qops ops sid w0)) = d"
  using poll cur upd com
  by (simp add: getWorkFromQueue_def bindIO_def handleQueueItem_to_transaction[OF del parse]
      tryCatch_def transaction_def checkCanceledAndRun_def dbRead_def dbWrite_def logMsg_def ret_def
      afterDelete_def)

text \<open>
  Claim C1. \<^verbatim>\<open>getWorkFromQueue\<close> deletes the message before it looks at the store, and
  an item that is not CANCELED is set to RUNNING and returned (\<open>queue_item_not_canceled\<close>).
  A CANCELED item is not discarded, though: the \<^verbatim>\<open>return null\<close> after the line
  "was canceled, skipping" leaves the transaction's callback only, and \<^verbatim>\<open>return item\<close>
  follows the transaction. With the message of item 7 on the queue and item 7 CANCELED
  in the store, the function returns item 7 to its caller.
\<close>

theorem canceled_item_is_returned:
  "getWorkItemStatus memOps (item7Db CANCELED []) 7 = Inr (Some CANCELED) \<and>
   fst (getWorkFromQueue svcEnv memQueue memOps ''svc''
          (queueWorldOf (item7Db CANCELED []) [item7Message])) =
     Inr (Some \<lparr>workItem = mkItem 7 ''jobA'', maxCmrGranules = None\<rparr>)"
proof -
  let ?d = "item7Db CANCELED []"
  let ?item = "\<lparr>workItem = mkItem 7 ''jobA'', maxCmrGranules = None\<rparr>"
  from pollQueue_item7[of ?d] obtain w1 where
    poll: "pollQueue svcEnv memQueue ''svc'' (queueWorldOf ?d [item7Message]) = (Inr (Some item7Message), w1)"
    and q1: "queues w1 ''queue://svc'' = [item7Message]" and d1: "db w1 = ?d" by blast
  have url: "getQueueUrlForService svcEnv ''svc'' = ''queue://svc''" by (simp add: svcEnv_def)
  have del: "deleteMessage memQueue (queues w1 (getQueueUrlForService svcEnv ''svc'')) (receipt item7Message) = Inr []"
    by (simp add: url q1 memQueue_def item7Message_def)
  have parse: "JSON_parse_WorkItemData svcEnv (body item7Message) = Inr ?item"
    by (simp add: svcEnv_def item7Message_def)
  have st: "getWorkItemStatus memOps ?d 7 = Inr (Some CANCELED)"
    by (simp add: memOps_def failIf_def item7Db_def mkItem_def)
  then have cur: "getWorkItemStatus memOps (db w1) (itemID (workItem ?item)) = Inr (Some CANCELED)"
    by (simp add: d1 mkItem_def)
  have com: "commitTransaction memOps (db w1) = Inr ?d"
    by (simp add: d1 memOps_def failIf_def item7Db_def)
  from queue_item_canceled[OF poll del parse cur com] st show ?thesis by simp
qed

section \<open>Running the worker: timeout against completion\<close>




































end
